theory Spec2Isabelle
  imports Complex_Main
begin

section \<open>Values and errors of the Python program\<close>

text \<open>
  The program computes with Python floats, Python ints and numpy float64 scalars.
  Floats are idealised as real numbers: there is no rounding, no overflow and no
  underflow in this development. What is kept is the difference between the two
  division operators the program runs into:
  \<^item> a Python float (or int) divided by a Python zero raises \<open>ZeroDivisionError\<close>;
  \<^item> as soon as one operand is a numpy float64 (everything computed from \<open>np.exp\<close>),
    division by zero raises nothing and yields \<open>inf\<close>, \<open>-inf\<close> or \<open>nan\<close>, which then
    propagate by the IEEE rules.
  Zeros carry no sign here (a zero divisor counts as \<open>+0\<close>).
\<close>

datatype error = ZeroDivisionError | KeyError | IndexError | ValueError | TypeError | SystemExit int

datatype pyval = PyFloat real | PyInt int

fun to_real :: "pyval \<Rightarrow> real" where
  "to_real (PyFloat x) = x"
| "to_real (PyInt n) = real_of_int n"

datatype npfloat = Fin real | PInf | NInf | NaN

fun np_add :: "npfloat \<Rightarrow> npfloat \<Rightarrow> npfloat" where
  "np_add (Fin a) (Fin b) = Fin (a + b)"
| "np_add NaN _ = NaN"
| "np_add _ NaN = NaN"
| "np_add PInf NInf = NaN"
| "np_add NInf PInf = NaN"
| "np_add PInf _ = PInf"
| "np_add _ PInf = PInf"
| "np_add NInf _ = NInf"
| "np_add _ NInf = NInf"

fun np_neg :: "npfloat \<Rightarrow> npfloat" where
  "np_neg (Fin a) = Fin (- a)"
| "np_neg PInf = NInf"
| "np_neg NInf = PInf"
| "np_neg NaN = NaN"

definition np_sub :: "npfloat \<Rightarrow> npfloat \<Rightarrow> npfloat" where
  "np_sub a b = np_add a (np_neg b)"

definition inf_of_sign :: "real \<Rightarrow> npfloat" where
  "inf_of_sign s = (if 0 < s then PInf else if s < 0 then NInf else NaN)"

fun np_mul :: "npfloat \<Rightarrow> npfloat \<Rightarrow> npfloat" where
  "np_mul (Fin a) (Fin b) = Fin (a * b)"
| "np_mul NaN _ = NaN"
| "np_mul _ NaN = NaN"
| "np_mul (Fin a) PInf = inf_of_sign a"
| "np_mul (Fin a) NInf = inf_of_sign (- a)"
| "np_mul PInf (Fin b) = inf_of_sign b"
| "np_mul NInf (Fin b) = inf_of_sign (- b)"
| "np_mul PInf PInf = PInf"
| "np_mul NInf NInf = PInf"
| "np_mul PInf NInf = NInf"
| "np_mul NInf PInf = NInf"

fun np_div :: "npfloat \<Rightarrow> npfloat \<Rightarrow> npfloat" where
  "np_div (Fin a) (Fin b) = (if b = 0 then inf_of_sign a else Fin (a / b))"
| "np_div NaN _ = NaN"
| "np_div _ NaN = NaN"
| "np_div (Fin a) PInf = Fin 0"
| "np_div (Fin a) NInf = Fin 0"
| "np_div PInf (Fin b) = (if b < 0 then NInf else PInf)"
| "np_div NInf (Fin b) = (if b < 0 then PInf else NInf)"
| "np_div PInf PInf = NaN"
| "np_div PInf NInf = NaN"
| "np_div NInf PInf = NaN"
| "np_div NInf NInf = NaN"

fun np_exp :: "npfloat \<Rightarrow> npfloat" where
  "np_exp (Fin a) = Fin (exp a)"
| "np_exp PInf = PInf"
| "np_exp NInf = Fin 0"
| "np_exp NaN = NaN"

text \<open>\<open>x ** 2\<close> on a numpy float.\<close>

fun np_square :: "npfloat \<Rightarrow> npfloat" where
  "np_square (Fin a) = Fin (a ^ 2)"
| "np_square PInf = PInf"
| "np_square NInf = PInf"
| "np_square NaN = NaN"

text \<open>
  The state handed to \<open>rhs\<close> is a Python list of floats (its docstring) or a numpy array
  (what \<open>solve_ivp\<close> passes); indexing the array gives numpy floats. The arguments of
  \<open>velocity\<close> are Python floats (its docstring) or numpy arrays (what
  \<open>calculate_contraction_dynamics\<close> passes), and its result is a float or an array. The
  entries handed in are finite numbers.
\<close>

datatype py_state = PyList "real list" | NdArray "real list"

datatype py_arg = ArgFloat real | ArgArray "real list"

datatype py_result = ResFloat real | ResArray "npfloat list"

text \<open>
  An operation on two one-dimensional numpy arrays works elementwise; an array of
  length one is broadcast, and other lengths that differ raise \<open>ValueError\<close>.
\<close>

definition broadcast2 :: "(real \<Rightarrow> real \<Rightarrow> 'a) \<Rightarrow> real list \<Rightarrow> real list \<Rightarrow> error + 'a list" where
  "broadcast2 f xs ys =
     (if length xs = length ys then Inr (map2 f xs ys)
      else if length xs = 1 then Inr (map (f (hd xs)) ys)
      else if length ys = 1 then Inr (map (\<lambda>x. f x (hd ys)) xs)
      else Inl ValueError)"

text \<open>Python's \<open>range(a, b)\<close> over ints: empty when \<open>b \<le> a\<close>.\<close>

definition py_range :: "int \<Rightarrow> int \<Rightarrow> int list" where
  "py_range a b = [a..b - 1]"

section \<open>parameter_loader.py\<close>

definition full_model_parameter_names :: "string list" where
  "full_model_parameter_names =
     [''x_catch'', ''x_slip'', ''k_off^catch'', ''k_off^slip'', ''k_on'', ''k_on_fil'', ''a/kBT'', ''N_h'',
      ''N_max'', ''h*eta_am^eff'', ''xi*rho_a(t=0)^2'', ''rho_a^max/rho_a(t=0)'', ''R0'']"

definition density_model_parameter_names :: "string list" where
  "density_model_parameter_names =
     [''h*eta_am^eff'', ''xi*NM*rho_a(t=0)^2'', ''rho_a^max/rho_a(t=0)'', ''R0'']"

text \<open>
  \<open>line.split()\<close>: the words of a line between runs of whitespace (the ASCII whitespace
  characters of Python's \<open>str.split\<close>).
\<close>

definition is_space :: "char \<Rightarrow> bool" where
  "is_space c = (c \<in> set [CHR '' '', CHR 0x09, CHR 0x0A, CHR 0x0B, CHR 0x0C, CHR 0x0D,
                            CHR 0x1C, CHR 0x1D, CHR 0x1E, CHR 0x1F])"

fun split_from :: "string \<Rightarrow> string \<Rightarrow> string list" where
  "split_from word [] = (if word = [] then [] else [rev word])"
| "split_from word (c # cs) =
     (if is_space c then (if word = [] then split_from [] cs else rev word # split_from [] cs)
      else split_from (c # word) cs)"

definition str_split :: "string \<Rightarrow> string list" where
  "str_split line = split_from [] line"

text \<open>\<open>names.index(x)\<close>: the first position of \<open>x\<close>; \<open>None\<close> stands for its \<open>ValueError\<close>.\<close>

fun list_index :: "'a list \<Rightarrow> 'a \<Rightarrow> nat option" where
  "list_index [] x = None"
| "list_index (y # ys) x = (if y = x then Some 0 else map_option Suc (list_index ys x))"

text \<open>
  The loop over the lines of the file in \<open>load_parameters\<close>. The builtins \<open>float\<close> and
  \<open>int\<close> are parameters \<open>py_float\<close> and \<open>py_int\<close> (\<open>None\<close> for their \<open>ValueError\<close>). The
  \<open>try\<close> block catches \<open>ValueError\<close> only: a line with no word, or a known name on a line
  of fewer than three words, ends the run with \<open>IndexError\<close>. The flag in
  \<open>parameters_found\<close> is set before the value is read. The warning printed in the
  \<open>except\<close> branch is not part of the state.
\<close>

fun load_lines ::
  "(string \<Rightarrow> real option) \<Rightarrow> (string \<Rightarrow> int option) \<Rightarrow> string list \<Rightarrow> string list \<Rightarrow>
   pyval list \<times> nat list \<Rightarrow> error + (pyval list \<times> nat list)" where
  "load_lines py_float py_int parameter_names [] st = Inr st"
| "load_lines py_float py_int parameter_names (line # lines) (parameters, parameters_found) =
     (case str_split line of
        [] \<Rightarrow> Inl IndexError
      | w0 # ws \<Rightarrow>
          (case list_index parameter_names w0 of
             None \<Rightarrow> load_lines py_float py_int parameter_names lines (parameters, parameters_found)
           | Some idx \<Rightarrow>
               (case ws of
                  _ # w2 # _ \<Rightarrow>
                    (case (if w0 = ''N_h'' \<or> w0 = ''N_max'' then map_option PyInt (py_int w2)
                           else map_option PyFloat (py_float w2)) of
                       None \<Rightarrow>
                         load_lines py_float py_int parameter_names lines
                           (parameters, parameters_found[idx := 1])
                     | Some v \<Rightarrow>
                         load_lines py_float py_int parameter_names lines
                           (parameters[idx := v], parameters_found[idx := 1]))
                | _ \<Rightarrow> Inl IndexError)))"

text \<open>
  \<open>load_parameters\<close>; the parameter file is the list of its lines, and \<open>sys.exit(1)\<close> is
  the error \<open>SystemExit 1\<close>.
\<close>

definition load_parameters ::
  "(string \<Rightarrow> real option) \<Rightarrow> (string \<Rightarrow> int option) \<Rightarrow> string \<Rightarrow> string list \<Rightarrow> error + pyval list" where
  "load_parameters py_float py_int model_type parameter_file =
     (case (if model_type = ''full model'' then Some full_model_parameter_names
            else if model_type = ''density model'' then Some density_model_parameter_names
            else None) of
        None \<Rightarrow> Inl (SystemExit 1)
      | Some parameter_names \<Rightarrow>
          (case load_lines py_float py_int parameter_names parameter_file
                  (replicate (length parameter_names) (PyFloat 0), replicate (length parameter_names) 0) of
             Inl e \<Rightarrow> Inl e
           | Inr (parameters, parameters_found) \<Rightarrow>
               if 0 \<in> set parameters_found then Inl (SystemExit 1) else Inr parameters))"

section \<open>models.py: the full model\<close>

text \<open>
  The attributes of a \<open>FullModel\<close> object. The loader returns floats for every
  parameter but \<open>N_h\<close> and \<open>N_max\<close>, which are ints when their value could be read and
  the float \<open>0.\<close> otherwise; \<open>pillar_stiffness\<close> is a float.
\<close>

record FullModel =
  x_catch :: real
  x_slip :: real
  k_off0_catch :: real
  k_off0_slip :: real
  k_on :: real
  k_on_fil :: real
  a_per_kBT :: real
  Nh :: pyval
  Nmax :: pyval
  h_eta :: real
  xi_rho_a2 :: real
  rho_max_per_rho :: real
  R0 :: real
  k_p :: real
  parameter_dict :: "(string \<times> pyval) list"
  A0 :: real
  tau :: real

text \<open>\<open>FullModel.__k_off\<close>: the result of \<open>np.exp\<close> makes the sum a numpy float.\<close>

definition k_off :: "FullModel \<Rightarrow> real \<Rightarrow> npfloat" where
  "k_off self force =
     np_add (np_mul (Fin (k_off0_catch self)) (np_exp (Fin (- a_per_kBT self * force * x_catch self))))
            (np_mul (Fin (k_off0_slip self)) (np_exp (Fin (a_per_kBT self * force * x_slip self))))"

text \<open>
  The inner loop of \<open>__calc_prob_dist\<close>, which the source writes twice (for \<open>nom\<close> and for
  \<open>prod\<close>): \<open>for i in range(0, n): nom = nom * ((Nh - i) * k_on) / ((i + 1) * k_off(F / (i + 1)))\<close>,
  from \<open>nom = 1\<close>.
\<close>

definition calc_prob_dist_prod :: "FullModel \<Rightarrow> int \<Rightarrow> real \<Rightarrow> int \<Rightarrow> npfloat" where
  "calc_prob_dist_prod self nh total_force n =
     fold (\<lambda>i nom. np_div (np_mul nom (Fin (real_of_int (nh - i) * k_on self)))
                           (np_mul (Fin (real_of_int (i + 1))) (k_off self (total_force / real_of_int (i + 1)))))
          (py_range 0 n) (Fin 1)"

text \<open>The loop \<open>for k in range(1, Nh + 1): ...; denom = denom + prod\<close>, from \<open>denom = 1\<close>.\<close>

definition calc_prob_dist_denom :: "FullModel \<Rightarrow> int \<Rightarrow> real \<Rightarrow> npfloat" where
  "calc_prob_dist_denom self nh total_force =
     fold (\<lambda>k denom. np_add denom (calc_prob_dist_prod self nh total_force k))
          (py_range 1 (nh + 1)) (Fin 1)"

text \<open>
  \<open>FullModel.__calc_prob_dist\<close>. \<open>range(0, self.Nh + 1)\<close> raises \<open>TypeError\<close> when \<open>Nh\<close> is
  a float. Every division has a numpy divisor, but for \<open>Nh = 0\<close>, where it is \<open>1 / 1\<close>.
\<close>

definition calc_prob_dist :: "FullModel \<Rightarrow> real \<Rightarrow> error + npfloat list" where
  "calc_prob_dist self total_force =
     (case Nh self of
        PyFloat _ \<Rightarrow> Inl TypeError
      | PyInt nh \<Rightarrow>
          Inr (map (\<lambda>n. np_div (calc_prob_dist_prod self nh total_force n)
                              (calc_prob_dist_denom self nh total_force))
                   (py_range 0 (nh + 1))))"

text \<open>
  The body of the loop over \<open>NB_init\<close> in \<open>k_off_fil\<close>: the sum \<open>s\<close> over \<open>pns[NB..Nh]\<close>, and
  \<open>T_off\<close>. The indices read from \<open>pns\<close> lie between 1 and \<open>Nh\<close>, and \<open>pns\<close> has \<open>Nh + 1\<close>
  entries.
\<close>

definition k_off_fil_s :: "npfloat list \<Rightarrow> int \<Rightarrow> int \<Rightarrow> npfloat" where
  "k_off_fil_s pns nh NB = fold (\<lambda>j s. np_add s (pns ! nat j)) (py_range NB (nh + 1)) (Fin 0)"

definition k_off_fil_T_off :: "FullModel \<Rightarrow> npfloat list \<Rightarrow> int \<Rightarrow> real \<Rightarrow> int \<Rightarrow> npfloat" where
  "k_off_fil_T_off self pns nh total_force NB_init =
     fold (\<lambda>NB T_off.
             np_add T_off
               (np_mul (np_div (Fin 1)
                          (np_mul (np_mul (Fin (real_of_int NB)) (k_off self (total_force / real_of_int NB)))
                                  (pns ! nat NB)))
                       (k_off_fil_s pns nh NB)))
          (py_range 1 (NB_init + 1)) (Fin 0)"

text \<open>
  \<open>FullModel.k_off_fil\<close>. When the loop over \<open>NB_init\<close> never runs, \<open>T_off_av\<close> is still the
  Python int 0 and \<open>1 / T_off_av\<close> raises; otherwise \<open>T_off_av\<close> is a numpy float.
\<close>

definition k_off_fil :: "FullModel \<Rightarrow> real \<Rightarrow> error + npfloat" where
  "k_off_fil self total_force =
     (case calc_prob_dist self total_force of
        Inl e \<Rightarrow> Inl e
      | Inr pns \<Rightarrow>
          (case Nh self of
             PyFloat _ \<Rightarrow> Inl TypeError
           | PyInt nh \<Rightarrow>
               (let T_off_av = fold (\<lambda>NB_init T_off_av.
                                       np_add T_off_av (np_mul (pns ! nat NB_init)
                                         (k_off_fil_T_off self pns nh total_force NB_init)))
                                   (py_range 1 (nh + 1)) (Fin 0)
                in if py_range 1 (nh + 1) = [] then Inl ZeroDivisionError
                   else Inr (np_div (Fin 1) T_off_av))))"

text \<open>
  \<open>FullModel.__init__\<close>. The thirteen values of the loader are unpacked in the order of
  \<open>full_model_parameter_names\<close>; \<open>tau\<close> divides by the pillar stiffness.
\<close>

definition FullModel_init ::
  "(string \<Rightarrow> real option) \<Rightarrow> (string \<Rightarrow> int option) \<Rightarrow> string list \<Rightarrow> real \<Rightarrow> error + FullModel" where
  "FullModel_init py_float py_int parameter_file pillar_stiffness =
     (case load_parameters py_float py_int ''full model'' parameter_file of
        Inl e \<Rightarrow> Inl e
      | Inr ps \<Rightarrow>
          if length ps \<noteq> 13 then Inl ValueError
          else if pillar_stiffness = 0 then Inl ZeroDivisionError
          else Inr \<lparr>x_catch = to_real (ps ! 0), x_slip = to_real (ps ! 1),
                    k_off0_catch = to_real (ps ! 2), k_off0_slip = to_real (ps ! 3),
                    k_on = to_real (ps ! 4), k_on_fil = to_real (ps ! 5), a_per_kBT = to_real (ps ! 6),
                    Nh = ps ! 7, Nmax = ps ! 8, h_eta = to_real (ps ! 9), xi_rho_a2 = to_real (ps ! 10),
                    rho_max_per_rho = to_real (ps ! 11), R0 = to_real (ps ! 12), k_p = pillar_stiffness,
                    parameter_dict =
                      [(''x_catch'', ps ! 0), (''x_slip'', ps ! 1), (''k_off0_catch'', ps ! 2),
                       (''k_off0_slip'', ps ! 3), (''k_on'', ps ! 4), (''k_on_fil'', ps ! 5),
                       (''a_per_kBT'', ps ! 6), (''Nh'', ps ! 7), (''Nmax'', ps ! 8), (''h_eta'', ps ! 9),
                       (''xi_rho_a2'', ps ! 10), (''rho_max_per_rho'', ps ! 11), (''R0'', ps ! 12),
                       (''k_p'', PyFloat pillar_stiffness)],
                    A0 = pi * (to_real (ps ! 12)) ^ 2,
                    tau = 6 / 5 * pi * to_real (ps ! 9) / pillar_stiffness\<rparr>)"

text \<open>
  \<open>FullModel.rhs\<close>. On a list of Python floats every division by a Python zero raises;
  on a numpy array \<open>force\<close> and \<open>N\<close> are numpy floats and no division raises. The second
  component mixes in the numpy float of \<open>k_off_fil\<close> in both cases.
\<close>

definition FullModel_rhs :: "FullModel \<Rightarrow> 't \<Rightarrow> py_state \<Rightarrow> error + npfloat list" where
  "FullModel_rhs self t y =
     (case y of
        PyList [] \<Rightarrow> Inl IndexError
      | PyList [force] \<Rightarrow> Inl IndexError
      | PyList (force # N # _) \<Rightarrow>
          if k_p self = 0 then Inl ZeroDivisionError
          else let area = pi * (R0 self - force / k_p self) ^ 2 in
          if area = 0 then Inl ZeroDivisionError
          else let density_factor = - A0 self / area * (A0 self / area - rho_max_per_rho self) in
          if tau self = 0 then Inl ZeroDivisionError
          else let force_prime = - force / tau self + xi_rho_a2 self * N * density_factor / tau self in
          (case k_off_fil self force of
             Inl e \<Rightarrow> Inl e
           | Inr k \<Rightarrow>
               Inr [Fin force_prime,
                    np_sub (Fin (k_on_fil self * (to_real (Nmax self) - N))) (np_mul k (Fin N))])
      | NdArray [] \<Rightarrow> Inl IndexError
      | NdArray [force] \<Rightarrow> Inl IndexError
      | NdArray (force # N # _) \<Rightarrow>
          (let area = np_mul (Fin pi)
                        (np_square (np_sub (Fin (R0 self)) (np_div (Fin force) (Fin (k_p self)))));
               density_factor = np_mul (np_div (Fin (- A0 self)) area)
                                  (np_sub (np_div (Fin (A0 self)) area) (Fin (rho_max_per_rho self)));
               force_prime = np_add (np_div (Fin (- force)) (Fin (tau self)))
                               (np_div (np_mul (np_mul (Fin (xi_rho_a2 self)) (Fin N)) density_factor)
                                       (Fin (tau self)))
           in case k_off_fil self force of
                Inl e \<Rightarrow> Inl e
              | Inr k \<Rightarrow>
                  Inr [force_prime,
                       np_sub (np_mul (Fin (k_on_fil self)) (np_sub (Fin (to_real (Nmax self))) (Fin N)))
                              (np_mul k (Fin N))]))"

text \<open>
  The lines of \<open>FullModel.velocity\<close> in numpy arithmetic, at one element of its array
  arguments.
\<close>

definition FullModel_velocity_np :: "FullModel \<Rightarrow> real \<Rightarrow> real \<Rightarrow> npfloat" where
  "FullModel_velocity_np self force N =
     (let area = np_mul (Fin pi)
                   (np_square (np_sub (Fin (R0 self)) (np_div (Fin force) (Fin (k_p self)))));
          density_factor = np_mul (np_div (Fin (- A0 self)) area)
                             (np_sub (np_div (Fin (A0 self)) area) (Fin (rho_max_per_rho self)))
      in np_div (np_add (np_div (Fin (- force)) (Fin (tau self)))
                        (np_div (np_mul (np_mul (Fin (xi_rho_a2 self)) (Fin N)) density_factor)
                                (Fin (tau self))))
                (Fin (k_p self)))"

text \<open>
  \<open>FullModel.velocity\<close>. Between Python floats a division by zero raises. With a float
  \<open>force\<close> and an array \<open>N\<close> the divisions by \<open>k_p\<close>, the area and (first) \<open>tau\<close> are still
  between Python floats. With an array \<open>force\<close> every division is numpy's.
\<close>

definition FullModel_velocity :: "FullModel \<Rightarrow> 't \<Rightarrow> py_arg \<Rightarrow> py_arg \<Rightarrow> error + py_result" where
  "FullModel_velocity self t force N =
     (case (force, N) of
        (ArgFloat f, ArgFloat n) \<Rightarrow>
          if k_p self = 0 then Inl ZeroDivisionError
          else let area = pi * (R0 self - f / k_p self) ^ 2 in
          if area = 0 then Inl ZeroDivisionError
          else let density_factor = - A0 self / area * (A0 self / area - rho_max_per_rho self) in
          if tau self = 0 then Inl ZeroDivisionError
          else Inr (ResFloat ((- f / tau self + xi_rho_a2 self * n * density_factor / tau self) / k_p self))
      | (ArgFloat f, ArgArray ns) \<Rightarrow>
          if k_p self = 0 then Inl ZeroDivisionError
          else let area = pi * (R0 self - f / k_p self) ^ 2 in
          if area = 0 then Inl ZeroDivisionError
          else let density_factor = - A0 self / area * (A0 self / area - rho_max_per_rho self) in
          if tau self = 0 then Inl ZeroDivisionError
          else Inr (ResArray (map (\<lambda>n. Fin ((- f / tau self + xi_rho_a2 self * n * density_factor / tau self)
                                              / k_p self)) ns))
      | (ArgArray fs, ArgFloat n) \<Rightarrow>
          Inr (ResArray (map (\<lambda>f. FullModel_velocity_np self f n) fs))
      | (ArgArray fs, ArgArray ns) \<Rightarrow>
          (case broadcast2 (FullModel_velocity_np self) fs ns of
             Inl e \<Rightarrow> Inl e
           | Inr vs \<Rightarrow> Inr (ResArray vs)))"

text \<open>
  \<open>FullModel.get_parameter\<close>: the lookup \<open>self.parameter_dict[parameter_name]\<close>, with the
  object as it is after the call.
\<close>

definition FullModel_get_parameter :: "FullModel \<Rightarrow> string \<Rightarrow> (error + pyval) \<times> FullModel" where
  "FullModel_get_parameter self parameter_name =
     (case map_of (parameter_dict self) parameter_name of
        None \<Rightarrow> (Inl KeyError, self)
      | Some v \<Rightarrow> (Inr v, self))"

section \<open>models.py: the density model\<close>

record DensityModel =
  h_eta :: real
  xi_N_rho_a2 :: real
  rho_max_per_rho :: real
  R0 :: real
  k_p :: real
  parameter_dict :: "(string \<times> pyval) list"
  A0 :: real
  tau :: real

definition DensityModel_init ::
  "(string \<Rightarrow> real option) \<Rightarrow> (string \<Rightarrow> int option) \<Rightarrow> string list \<Rightarrow> real \<Rightarrow> error + DensityModel" where
  "DensityModel_init py_float py_int parameter_file pillar_stiffness =
     (case load_parameters py_float py_int ''density model'' parameter_file of
        Inl e \<Rightarrow> Inl e
      | Inr ps \<Rightarrow>
          if length ps \<noteq> 4 then Inl ValueError
          else if pillar_stiffness = 0 then Inl ZeroDivisionError
          else Inr \<lparr>h_eta = to_real (ps ! 0), xi_N_rho_a2 = to_real (ps ! 1),
                    rho_max_per_rho = to_real (ps ! 2), R0 = to_real (ps ! 3), k_p = pillar_stiffness,
                    parameter_dict =
                      [(''h_eta'', ps ! 0), (''xi_N_rho_a2'', ps ! 1), (''rho_max_per_rho'', ps ! 2),
                       (''R0'', ps ! 3), (''k_p'', PyFloat pillar_stiffness)],
                    A0 = pi * (to_real (ps ! 3)) ^ 2,
                    tau = 6 / 5 * pi * to_real (ps ! 0) / pillar_stiffness\<rparr>)"

text \<open>\<open>DensityModel.rhs\<close>, on a list of Python floats and on a numpy array.\<close>

definition DensityModel_rhs :: "DensityModel \<Rightarrow> 't \<Rightarrow> py_state \<Rightarrow> error + npfloat list" where
  "DensityModel_rhs self t y =
     (case y of
        PyList [] \<Rightarrow> Inl IndexError
      | PyList (force # _) \<Rightarrow>
          if k_p self = 0 then Inl ZeroDivisionError
          else let area = pi * (R0 self - force / k_p self) ^ 2 in
          if area = 0 then Inl ZeroDivisionError
          else let density_factor = - A0 self / area * (A0 self / area - rho_max_per_rho self) in
          if tau self = 0 then Inl ZeroDivisionError
          else Inr [Fin (- force / tau self + xi_N_rho_a2 self * density_factor / tau self)]
      | NdArray [] \<Rightarrow> Inl IndexError
      | NdArray (force # _) \<Rightarrow>
          (let area = np_mul (Fin pi)
                        (np_square (np_sub (Fin (R0 self)) (np_div (Fin force) (Fin (k_p self)))));
               density_factor = np_mul (np_div (Fin (- A0 self)) area)
                                  (np_sub (np_div (Fin (A0 self)) area) (Fin (rho_max_per_rho self)))
           in Inr [np_add (np_div (Fin (- force)) (Fin (tau self)))
                          (np_div (np_mul (Fin (xi_N_rho_a2 self)) density_factor) (Fin (tau self)))]))"

text \<open>
  The lines of \<open>DensityModel.velocity\<close> in numpy arithmetic, at one element of its array
  argument.
\<close>

definition DensityModel_velocity_np :: "DensityModel \<Rightarrow> real \<Rightarrow> npfloat" where
  "DensityModel_velocity_np self force =
     (let area = np_mul (Fin pi)
                   (np_square (np_sub (Fin (R0 self)) (np_div (Fin force) (Fin (k_p self)))));
          density_factor = np_mul (np_div (Fin (- A0 self)) area)
                             (np_sub (np_div (Fin (A0 self)) area) (Fin (rho_max_per_rho self)))
      in np_div (np_add (np_div (Fin (- force)) (Fin (tau self)))
                        (np_div (np_mul (Fin (xi_N_rho_a2 self)) density_factor) (Fin (tau self))))
                (Fin (k_p self)))"

text \<open>\<open>DensityModel.velocity\<close>, on a Python float and on a numpy array.\<close>

definition DensityModel_velocity :: "DensityModel \<Rightarrow> 't \<Rightarrow> py_arg \<Rightarrow> error + py_result" where
  "DensityModel_velocity self t force =
     (case force of
        ArgFloat f \<Rightarrow>
          if k_p self = 0 then Inl ZeroDivisionError
          else let area = pi * (R0 self - f / k_p self) ^ 2 in
          if area = 0 then Inl ZeroDivisionError
          else let density_factor = - A0 self / area * (A0 self / area - rho_max_per_rho self) in
          if tau self = 0 then Inl ZeroDivisionError
          else Inr (ResFloat ((- f / tau self + xi_N_rho_a2 self * density_factor / tau self) / k_p self))
      | ArgArray fs \<Rightarrow> Inr (ResArray (map (DensityModel_velocity_np self) fs)))"

definition DensityModel_get_parameter :: "DensityModel \<Rightarrow> string \<Rightarrow> (error + pyval) \<times> DensityModel" where
  "DensityModel_get_parameter self parameter_name =
     (case map_of (parameter_dict self) parameter_name of
        None \<Rightarrow> (Inl KeyError, self)
      | Some v \<Rightarrow> (Inr v, self))"

section \<open>work_and_power.py\<close>

text \<open>
  The functions of this module take any object with a \<open>get_parameter\<close> method; the
  object is represented by that method. Arrays are lists of (finite) floats. The
  product of two one-dimensional numpy arrays is elementwise, an array of length one
  is broadcast, and other lengths that differ raise \<open>ValueError\<close>.
\<close>

type_synonym model = "string \<Rightarrow> error + pyval"

definition FullModel_object :: "FullModel \<Rightarrow> model" where
  "FullModel_object self = (\<lambda>parameter_name. fst (FullModel_get_parameter self parameter_name))"

definition DensityModel_object :: "DensityModel \<Rightarrow> model" where
  "DensityModel_object self = (\<lambda>parameter_name. fst (DensityModel_get_parameter self parameter_name))"

definition array_mul :: "real list \<Rightarrow> real list \<Rightarrow> error + real list" where
  "array_mul xs ys =
     (if length xs = length ys then Inr (map2 (*) xs ys)
      else if length xs = 1 then Inr (map (\<lambda>y. hd xs * y) ys)
      else if length ys = 1 then Inr (map (\<lambda>x. x * hd ys) xs)
      else Inl ValueError)"

definition transmitted_power :: "real list \<Rightarrow> real list \<Rightarrow> model \<Rightarrow> error + real list" where
  "transmitted_power displacements velocities model =
     (case model ''k_p'' of
        Inl e \<Rightarrow> Inl e
      | Inr k \<Rightarrow> array_mul (map (\<lambda>d. 5 * 2 * to_real k * d) displacements) velocities)"

definition dissipated_power :: "real list \<Rightarrow> model \<Rightarrow> error + real list" where
  "dissipated_power velocities model =
     (case model ''h_eta'' of
        Inl e \<Rightarrow> Inl e
      | Inr h \<Rightarrow>
          (let gamma = 6 / 5 * pi * to_real h
           in Inr (map (\<lambda>v. 5 * gamma * 4 * v ^ 2) velocities)))"

text \<open>
  The loop \<open>for (time, power) in zip(t, powers): work += (time - time_prev) * power\<close>
  of \<open>work_elastic\<close> and \<open>work_diss\<close>. Its body does not assign \<open>time_prev\<close>.
\<close>

fun work_loop :: "real \<Rightarrow> real \<Rightarrow> (real \<times> real) list \<Rightarrow> real" where
  "work_loop time_prev work [] = work"
| "work_loop time_prev work ((time, pwr) # rest) =
     work_loop time_prev (work + (time - time_prev) * pwr) rest"

definition work_elastic :: "real list \<Rightarrow> real list \<Rightarrow> real list \<Rightarrow> model \<Rightarrow> error + real" where
  "work_elastic t displacements velocities model =
     (case transmitted_power displacements velocities model of
        Inl e \<Rightarrow> Inl e
      | Inr powers \<Rightarrow> Inr (work_loop 0 0 (zip t powers)))"

definition work_diss :: "real list \<Rightarrow> real list \<Rightarrow> model \<Rightarrow> error + real" where
  "work_diss t velocities model =
     (case dissipated_power velocities model of
        Inl e \<Rightarrow> Inl e
      | Inr powers \<Rightarrow> Inr (work_loop 0 0 (zip t powers)))"

section \<open>Notions of the specification\<close>

text \<open>
  The cumulative work as the specification words it: the sum of
  \<open>(t\<^sub>i - t\<^sub>i\<^sub>-\<^sub>1) * power\<^sub>i\<close>, the first interval starting at the given previous time.
\<close>

fun spec_cumulativeWork :: "real \<Rightarrow> (real \<times> real) list \<Rightarrow> real" where
  "spec_cumulativeWork time_prev [] = 0"
| "spec_cumulativeWork time_prev ((time, pwr) # rest) =
     (time - time_prev) * pwr + spec_cumulativeWork time rest"

text \<open>Python's \<open>sum\<close> over a list of numpy floats.\<close>

definition np_sum :: "npfloat list \<Rightarrow> npfloat" where
  "np_sum xs = fold (\<lambda>x s. np_add s x) xs (Fin 0)"

text \<open>The names a parameter file defines: the first word of each of its lines.\<close>

definition file_keys :: "string list \<Rightarrow> string list" where
  "file_keys parameter_file = map (\<lambda>line. hd (str_split line)) (filter (\<lambda>line. str_split line \<noteq> []) parameter_file)"

text \<open>
  A line the loader can process: it has a word, and when the word is a known parameter
  name it has at least three words.
\<close>

definition line_well_formed :: "string list \<Rightarrow> string \<Rightarrow> bool" where
  "line_well_formed parameter_names line =
     (case str_split line of
        [] \<Rightarrow> False
      | w0 # ws \<Rightarrow> w0 \<notin> set parameter_names \<or> 2 \<le> length ws)"

text \<open>
  The value a line gives to a name: the third word of a line that starts with the name,
  read by \<open>int\<close> for \<open>N_h\<close> and \<open>N_max\<close> and by \<open>float\<close> otherwise, when it can be read.
\<close>

definition read_value ::
  "(string \<Rightarrow> real option) \<Rightarrow> (string \<Rightarrow> int option) \<Rightarrow> string \<Rightarrow> string \<Rightarrow> pyval option" where
  "read_value py_float py_int name line =
     (case str_split line of
        w0 # _ # w2 # _ \<Rightarrow>
          if w0 = name
          then (if name = ''N_h'' \<or> name = ''N_max'' then map_option PyInt (py_int w2)
                else map_option PyFloat (py_float w2))
          else None
      | _ \<Rightarrow> None)"

text \<open>The value a file gives to a name: that of the last line that gives it one.\<close>

fun file_value ::
  "(string \<Rightarrow> real option) \<Rightarrow> (string \<Rightarrow> int option) \<Rightarrow> string \<Rightarrow> string list \<Rightarrow> pyval option" where
  "file_value py_float py_int name [] = None"
| "file_value py_float py_int name (line # lines) =
     (case file_value py_float py_int name lines of
        Some v \<Rightarrow> Some v
      | None \<Rightarrow> read_value py_float py_int name line)"

text \<open>The keys of the two parameter dictionaries, in the order of their values.\<close>

definition FullModel_parameter_keys :: "string list" where
  "FullModel_parameter_keys =
     [''x_catch'', ''x_slip'', ''k_off0_catch'', ''k_off0_slip'', ''k_on'', ''k_on_fil'', ''a_per_kBT'',
      ''Nh'', ''Nmax'', ''h_eta'', ''xi_rho_a2'', ''rho_max_per_rho'', ''R0'', ''k_p'']"

definition DensityModel_parameter_keys :: "string list" where
  "DensityModel_parameter_keys = [''h_eta'', ''xi_N_rho_a2'', ''rho_max_per_rho'', ''R0'', ''k_p'']"

text \<open>A numpy float that is a positive number, and one that is a number not below zero.\<close>

definition is_pos :: "npfloat \<Rightarrow> bool" where
  "is_pos x = (case x of Fin r \<Rightarrow> 0 < r | _ \<Rightarrow> False)"

definition is_nonneg :: "npfloat \<Rightarrow> bool" where
  "is_nonneg x = (case x of Fin r \<Rightarrow> 0 \<le> r | _ \<Rightarrow> False)"

definition fin_val :: "npfloat \<Rightarrow> real" where
  "fin_val x = (case x of Fin r \<Rightarrow> r | _ \<Rightarrow> 0)"

text \<open>A numpy float that is a number, neither \<open>inf\<close>, \<open>-inf\<close> nor \<open>nan\<close>.\<close>

definition is_finite :: "npfloat \<Rightarrow> bool" where
  "is_finite x = (case x of Fin r \<Rightarrow> True | _ \<Rightarrow> False)"

section \<open>Example parameter files and models\<close>

text \<open>
  The values of the builtins \<open>float\<close> and \<open>int\<close> on the number words of the example
  files; on any other word they stand for a \<open>ValueError\<close>.
\<close>

definition example_float :: "string \<Rightarrow> real option" where
  "example_float = map_of [(''0'', 0), (''1'', 1), (''2'', 2), (''10'', 10)]"

definition example_int :: "string \<Rightarrow> int option" where
  "example_int = map_of [(''0'', 0), (''1'', 1), (''2'', 2), (''10'', 10)]"

text \<open>
  A parameter file of the full model, with the words for the two unloaded off-rates
  and the number of heads left open, and the object \<open>FullModel(file, 35.)\<close> built from it.
\<close>

definition example_full_file :: "string \<Rightarrow> string \<Rightarrow> string \<Rightarrow> string list" where
  "example_full_file catch slip heads =
     [''x_catch = 1'', ''x_slip = 1'', ''k_off^catch = '' @ catch, ''k_off^slip = '' @ slip,
      ''k_on = 1'', ''k_on_fil = 1'', ''a/kBT = 1'', ''N_h = '' @ heads, ''N_max = 10'',
      ''h*eta_am^eff = 1'', ''xi*rho_a(t=0)^2 = 1'', ''rho_a^max/rho_a(t=0) = 2'', ''R0 = 10'']"

definition example_full_model :: "real \<Rightarrow> real \<Rightarrow> int \<Rightarrow> FullModel" where
  "example_full_model catch slip heads =
     \<lparr>x_catch = 1, x_slip = 1, k_off0_catch = catch, k_off0_slip = slip, k_on = 1, k_on_fil = 1,
      a_per_kBT = 1, Nh = PyInt heads, Nmax = PyInt 10, h_eta = 1, xi_rho_a2 = 1, rho_max_per_rho = 2,
      R0 = 10, k_p = 35,
      parameter_dict =
        [(''x_catch'', PyFloat 1), (''x_slip'', PyFloat 1), (''k_off0_catch'', PyFloat catch),
         (''k_off0_slip'', PyFloat slip), (''k_on'', PyFloat 1), (''k_on_fil'', PyFloat 1),
         (''a_per_kBT'', PyFloat 1), (''Nh'', PyInt heads), (''Nmax'', PyInt 10), (''h_eta'', PyFloat 1),
         (''xi_rho_a2'', PyFloat 1), (''rho_max_per_rho'', PyFloat 2), (''R0'', PyFloat 10),
         (''k_p'', PyFloat 35)],
      A0 = pi * 10 ^ 2, tau = 6 / 5 * pi * 1 / 35\<rparr>"

text \<open>A filament with a single head and a catch bond only.\<close>

definition single_head_model :: FullModel where
  "single_head_model = example_full_model 1 0 1"

text \<open>A filament with two heads, both bond types.\<close>

definition two_head_model :: FullModel where
  "two_head_model = example_full_model 1 1 2"

text \<open>A filament with two heads whose unloaded off-rates are both zero.\<close>

definition zero_rate_model :: FullModel where
  "zero_rate_model = example_full_model 0 0 2"

text \<open>A filament with no head at all.\<close>

definition headless_model :: FullModel where
  "headless_model = example_full_model 1 1 0"

text \<open>
  A parameter file of the density model, with the word for \<open>h*eta_am^eff\<close> left open,
  and the object \<open>DensityModel(file, 35.)\<close> built from it.
\<close>

definition example_density_file :: "string \<Rightarrow> string list" where
  "example_density_file eta =
     [''h*eta_am^eff = '' @ eta, ''xi*NM*rho_a(t=0)^2 = 1'', ''rho_a^max/rho_a(t=0) = 2'', ''R0 = 10'']"

definition example_density_model :: "real \<Rightarrow> DensityModel" where
  "example_density_model eta =
     \<lparr>h_eta = eta, xi_N_rho_a2 = 1, rho_max_per_rho = 2, R0 = 10, k_p = 35,
      parameter_dict =
        [(''h_eta'', PyFloat eta), (''xi_N_rho_a2'', PyFloat 1), (''rho_max_per_rho'', PyFloat 2),
         (''R0'', PyFloat 10), (''k_p'', PyFloat 35)],
      A0 = pi * 10 ^ 2, tau = 6 / 5 * pi * eta / 35\<rparr>"

section \<open>Cumulative work\<close>

lemma work_loop_sum:
  "work_loop time_prev work xs = work + (\<Sum>(time, pwr)\<leftarrow>xs. (time - time_prev) * pwr)"
  by (induction xs arbitrary: work) (auto simp: algebra_simps)

text \<open>
  Claim C1. The cumulative work of \<open>work_elastic\<close> and \<open>work_diss\<close> should be the sum of
  \<open>(t\<^sub>i - t\<^sub>i\<^sub>-\<^sub>1) * power\<^sub>i\<close> with an implicit previous time 0 before the first point.
  The loop never advances \<open>time_prev\<close>, so every power is weighted by its whole time
  \<open>t\<^sub>i - 0\<close>. For the times 1, 2, displacements and velocities 1 and the example models
  (\<open>k_p = 35\<close>, \<open>h_eta = 1\<close>) the powers are 350 (transmitted) and \<open>24 \<pi>\<close> (dissipated) at
  both times; the functions return 1050 and \<open>72 \<pi>\<close>, where the sum of the specification
  is 700 and \<open>48 \<pi>\<close>.
\<close>

theorem work_time_prev_never_advanced:
  "work_elastic [1, 2] [1, 1] [1, 1] (FullModel_object two_head_model) = Inr 1050 \<and>
   transmitted_power [1, 1] [1, 1] (FullModel_object two_head_model) = Inr [350, 350] \<and>
   spec_cumulativeWork 0 (zip [1, 2] [350, 350]) = 700 \<and>
   work_diss [1, 2] [1, 1] (DensityModel_object (example_density_model 1)) = Inr (72 * pi) \<and>
   dissipated_power [1, 1] (DensityModel_object (example_density_model 1)) = Inr [24 * pi, 24 * pi] \<and>
   spec_cumulativeWork 0 (zip [1, 2] [24 * pi, 24 * pi]) = 48 * pi"
  by (simp add: work_elastic_def work_diss_def transmitted_power_def dissipated_power_def array_mul_def
      FullModel_object_def DensityModel_object_def FullModel_get_parameter_def
      DensityModel_get_parameter_def two_head_model_def example_full_model_def
      example_density_model_def)

section \<open>Dissipated power\<close>

text \<open>
  Claim C3, as stated: \<open>dissipated_power\<close> returns \<open>(24/5) \<pi> h_eta v\<^sup>2\<close> elementwise.
  It does not: for one velocity 1 and the example density model (\<open>h_eta = 1\<close>) the result
  is \<open>24 \<pi>\<close>.
\<close>

theorem dissipated_power_factor_counterexample:
  "dissipated_power [1] (DensityModel_object (example_density_model 1))
     \<noteq> Inr (map (\<lambda>v. 24 / 5 * pi * 1 * v ^ 2) [1])"
  by (simp add: dissipated_power_def DensityModel_object_def DensityModel_get_parameter_def
      example_density_model_def)

text \<open>
  Claim C3, amended: for every velocity array and every model whose \<open>h_eta\<close> parameter is
  set, \<open>dissipated_power\<close> returns elementwise \<open>24 \<pi> h_eta v\<^sup>2\<close>, which is
  \<open>5 * gamma * 4 * v\<^sup>2\<close> for \<open>gamma = (6/5) \<pi> h_eta\<close>.
\<close>

theorem dissipated_power_elementwise:
  "model ''h_eta'' = Inr h \<Longrightarrow>
   dissipated_power velocities model = Inr (map (\<lambda>v. 24 * pi * to_real h * v ^ 2) velocities)"
  by (simp add: dissipated_power_def)

theorem dissipated_power_elementwise_witness:
  "FullModel_object two_head_model ''h_eta'' = Inr (PyFloat 1) \<and>
   dissipated_power [2, 3] (FullModel_object two_head_model) = Inr [96 * pi, 216 * pi]"
  using dissipated_power_elementwise [of "FullModel_object two_head_model" "PyFloat 1" "[2, 3]"]
  by (simp add: FullModel_object_def FullModel_get_parameter_def two_head_model_def
      example_full_model_def)

section \<open>Positive numpy floats\<close>

lemma is_pos_Fin [simp]: "is_pos (Fin r) = (0 < r)"
  by (simp add: is_pos_def)

lemma is_nonneg_Fin [simp]: "is_nonneg (Fin r) = (0 \<le> r)"
  by (simp add: is_nonneg_def)

lemma fin_val_Fin [simp]: "fin_val (Fin r) = r"
  by (simp add: fin_val_def)

lemma is_pos_cases: "is_pos x \<Longrightarrow> (\<And>r. x = Fin r \<Longrightarrow> 0 < r \<Longrightarrow> P) \<Longrightarrow> P"
  by (cases x) (simp_all add: is_pos_def)

lemma is_nonneg_cases: "is_nonneg x \<Longrightarrow> (\<And>r. x = Fin r \<Longrightarrow> 0 \<le> r \<Longrightarrow> P) \<Longrightarrow> P"
  by (cases x) (simp_all add: is_nonneg_def)

lemma is_pos_fin_val: "is_pos x \<Longrightarrow> x = Fin (fin_val x) \<and> 0 < fin_val x"
  by (cases x) (simp_all add: is_pos_def fin_val_def)

lemma is_pos_np_mul: "is_pos a \<Longrightarrow> is_pos b \<Longrightarrow> is_pos (np_mul a b)"
  by (elim is_pos_cases) simp

lemma is_pos_np_div: "is_pos a \<Longrightarrow> is_pos b \<Longrightarrow> is_pos (np_div a b)"
  by (elim is_pos_cases) simp

lemma is_pos_np_add: "is_nonneg a \<Longrightarrow> is_pos b \<Longrightarrow> is_pos (np_add a b)"
  by (elim is_pos_cases is_nonneg_cases) (simp add: add_nonneg_pos)

lemma is_pos_nonneg: "is_pos a \<Longrightarrow> is_nonneg a"
  by (elim is_pos_cases) simp

lemma k_off_is_pos:
  "0 \<le> k_off0_catch m \<Longrightarrow> 0 \<le> k_off0_slip m \<Longrightarrow> 0 < k_off0_catch m + k_off0_slip m \<Longrightarrow>
   is_pos (k_off m force)"
proof -
  assume a: "0 \<le> k_off0_catch m" "0 \<le> k_off0_slip m" "0 < k_off0_catch m + k_off0_slip m"
  have "0 < k_off0_catch m \<or> 0 < k_off0_slip m" using a by linarith
  then show ?thesis
  proof
    assume "0 < k_off0_catch m"
    then have "0 < k_off0_catch m * exp (- a_per_kBT m * force * x_catch m)" by simp
    moreover have "0 \<le> k_off0_slip m * exp (a_per_kBT m * force * x_slip m)" using a by simp
    ultimately show ?thesis by (simp add: k_off_def add_pos_nonneg)
  next
    assume "0 < k_off0_slip m"
    then have "0 < k_off0_slip m * exp (a_per_kBT m * force * x_slip m)" by simp
    moreover have "0 \<le> k_off0_catch m * exp (- a_per_kBT m * force * x_catch m)" using a by simp
    ultimately show ?thesis by (simp add: k_off_def add_nonneg_pos)
  qed
qed

lemma py_range_snoc: "a \<le> b \<Longrightarrow> py_range a (b + 1) = py_range a b @ [b]"
  by (simp add: py_range_def upto_rec2)

lemma py_range_empty [simp]: "py_range a a = []"
  by (simp add: py_range_def)

lemma calc_prob_dist_prod_0 [simp]: "calc_prob_dist_prod m nh F 0 = Fin 1"
  by (simp add: calc_prob_dist_prod_def)

lemma calc_prob_dist_prod_step:
  "0 \<le> n \<Longrightarrow>
   calc_prob_dist_prod m nh F (n + 1) =
     np_div (np_mul (calc_prob_dist_prod m nh F n) (Fin (real_of_int (nh - n) * k_on m)))
            (np_mul (Fin (real_of_int (n + 1))) (k_off m (F / real_of_int (n + 1))))"
  by (simp add: calc_prob_dist_prod_def py_range_snoc)

lemma calc_prob_dist_prod_is_pos:
  assumes "0 < k_on m" and "\<And>f. is_pos (k_off m f)"
  shows "int k \<le> nh \<Longrightarrow> is_pos (calc_prob_dist_prod m nh F (int k))"
proof (induction k)
  case 0
  show ?case by simp
next
  case (Suc k)
  have step: "calc_prob_dist_prod m nh F (int (Suc k)) =
     np_div (np_mul (calc_prob_dist_prod m nh F (int k)) (Fin (real_of_int (nh - int k) * k_on m)))
            (np_mul (Fin (real_of_int (int k + 1))) (k_off m (F / real_of_int (int k + 1))))"
    using calc_prob_dist_prod_step [of "int k" m nh F] by (simp add: add.commute)
  have "is_pos (calc_prob_dist_prod m nh F (int k))" using Suc by simp
  moreover have "is_pos (Fin (real_of_int (nh - int k) * k_on m))"
    using Suc.prems assms(1) by simp
  ultimately have num: "is_pos (np_mul (calc_prob_dist_prod m nh F (int k)) (Fin (real_of_int (nh - int k) * k_on m)))"
    by (rule is_pos_np_mul)
  have den: "is_pos (np_mul (Fin (real_of_int (int k + 1))) (k_off m (F / real_of_int (int k + 1))))"
    by (rule is_pos_np_mul) (simp_all add: assms(2))
  show ?case unfolding step using num den by (rule is_pos_np_div)
qed

lemma fold_np_add_Fin:
  "(\<And>x. x \<in> set xs \<Longrightarrow> is_pos (g x)) \<Longrightarrow>
   fold (\<lambda>k acc. np_add acc (g k)) xs (Fin a) = Fin (a + (\<Sum>x\<leftarrow>xs. fin_val (g x)))"
proof (induction xs arbitrary: a)
  case Nil
  show ?case by simp
next
  case (Cons x xs)
  have "g x = Fin (fin_val (g x))" using Cons.prems is_pos_fin_val by simp
  then have "np_add (Fin a) (g x) = Fin (a + fin_val (g x))" by (metis np_add.simps(1))
  then show ?case using Cons by (simp add: add.assoc)
qed

lemma fold_np_add_is_pos:
  "(\<And>x. x \<in> set xs \<Longrightarrow> is_pos (g x)) \<Longrightarrow> xs \<noteq> [] \<Longrightarrow> is_nonneg a \<Longrightarrow>
   is_pos (fold (\<lambda>k acc. np_add acc (g k)) xs a)"
proof (induction xs arbitrary: a)
  case Nil
  then show ?case by simp
next
  case (Cons x xs)
  have p: "is_pos (np_add a (g x))" using Cons.prems by (simp add: is_pos_np_add)
  show ?case
  proof (cases "xs = []")
    case True
    then show ?thesis using p by simp
  next
    case False
    then show ?thesis using Cons.IH [of "np_add a (g x)"] Cons.prems p by (simp add: is_pos_nonneg)
  qed
qed


lemma calc_prob_dist_prod_is_pos_int:
  assumes "0 < k_on m" and "\<And>f. is_pos (k_off m f)" and "0 \<le> n" and "n \<le> nh"
  shows "is_pos (calc_prob_dist_prod m nh F n)"
  using calc_prob_dist_prod_is_pos [of m "nat n" nh F] assms by simp

lemma set_py_range [simp]: "set (py_range a b) = {a..<b}"
  by (auto simp: py_range_def)

lemma length_py_range [simp]: "length (py_range a b) = nat (b - a)"
  by (simp add: py_range_def)

lemma nth_py_range: "0 \<le> j \<Longrightarrow> j < b \<Longrightarrow> py_range 0 b ! nat j = j"
  by (simp add: py_range_def)

lemma py_range_Cons: "a < b \<Longrightarrow> py_range a b = a # py_range (a + 1) b"
  by (simp add: py_range_def upto_rec1)

lemma calc_prob_dist_denom_Fin:
  assumes "0 < k_on m" and "\<And>f. is_pos (k_off m f)"
  shows "calc_prob_dist_denom m nh F =
           Fin (1 + (\<Sum>k\<leftarrow>py_range 1 (nh + 1). fin_val (calc_prob_dist_prod m nh F k)))"
  unfolding calc_prob_dist_denom_def
  by (rule fold_np_add_Fin) (simp add: calc_prob_dist_prod_is_pos_int assms)

lemma sum_list_fin_val_nonneg:
  "(\<And>x. x \<in> set xs \<Longrightarrow> is_pos (g x)) \<Longrightarrow> 0 \<le> (\<Sum>x\<leftarrow>xs. fin_val (g x))"
proof (rule sum_list_nonneg)
  fix y assume h: "\<And>x. x \<in> set xs \<Longrightarrow> is_pos (g x)" and "y \<in> set (map (\<lambda>x. fin_val (g x)) xs)"
  then obtain x where "x \<in> set xs" and "y = fin_val (g x)" by auto
  then show "0 \<le> y" using is_pos_fin_val [OF h [of x]] by simp
qed

lemma calc_prob_dist_denom_is_pos:
  assumes "0 < k_on m" and "\<And>f. is_pos (k_off m f)"
  shows "is_pos (calc_prob_dist_denom m nh F)"
proof -
  have "0 \<le> (\<Sum>k\<leftarrow>py_range 1 (nh + 1). fin_val (calc_prob_dist_prod m nh F k))"
    by (rule sum_list_fin_val_nonneg) (simp add: calc_prob_dist_prod_is_pos_int assms)
  then show ?thesis by (simp add: calc_prob_dist_denom_Fin assms)
qed

lemma sum_list_divide: "(\<Sum>x\<leftarrow>xs. f x / (d::real)) = (\<Sum>x\<leftarrow>xs. f x) / d"
  by (induction xs) (simp_all add: add_divide_distrib)

lemma fin_val_np_div: "is_pos a \<Longrightarrow> is_pos b \<Longrightarrow> fin_val (np_div a b) = fin_val a / fin_val b"
  by (elim is_pos_cases) (simp add: fin_val_def)

section \<open>The distribution of bound heads\<close>

text \<open>
  Claim C4. For every total force and every full model with \<open>Nh \<ge> 0\<close>, a positive
  on-rate and unloaded off-rates that are not negative and not both zero (positive
  rate parameters in particular), \<open>__calc_prob_dist\<close> returns a list of \<open>Nh + 1\<close>
  probabilities that sum to 1.
\<close>

theorem calc_prob_dist_sums_to_one:
  assumes "Nh m = PyInt nh" and "0 \<le> nh" and "0 < k_on m"
    and "0 \<le> k_off0_catch m" and "0 \<le> k_off0_slip m" and "0 < k_off0_catch m + k_off0_slip m"
  shows "\<exists>pns. calc_prob_dist m total_force = Inr pns \<and> length pns = nat (nh + 1) \<and> np_sum pns = Fin 1"
proof -
  let ?P = "calc_prob_dist_prod m nh total_force"
  let ?D = "calc_prob_dist_denom m nh total_force"
  let ?pns = "map (\<lambda>n. np_div (?P n) ?D) (py_range 0 (nh + 1))"
  have kpos: "\<And>f. is_pos (k_off m f)" using assms(4-6) by (rule k_off_is_pos)
  have Ppos: "\<And>n. n \<in> set (py_range 0 (nh + 1)) \<Longrightarrow> is_pos (?P n)"
    using assms(3) kpos by (simp add: calc_prob_dist_prod_is_pos_int)
  have Dpos: "is_pos ?D" using assms(3) kpos by (rule calc_prob_dist_denom_is_pos)
  have Dval: "fin_val ?D = 1 + (\<Sum>k\<leftarrow>py_range 1 (nh + 1). fin_val (?P k))"
    using calc_prob_dist_denom_Fin [OF assms(3) kpos, of nh total_force] by (simp add: fin_val_def)
  have split: "py_range 0 (nh + 1) = 0 # py_range 1 (nh + 1)"
    using assms(2) py_range_Cons [of 0 "nh + 1"] by simp
  have P0: "fin_val (?P 0) = 1" by (simp add: fin_val_def)
  have total: "(\<Sum>n\<leftarrow>py_range 0 (nh + 1). fin_val (?P n)) = fin_val ?D"
    unfolding Dval by (subst split) (simp add: P0)
  have "np_sum ?pns = fold (\<lambda>n s. np_add s (np_div (?P n) ?D)) (py_range 0 (nh + 1)) (Fin 0)"
    by (simp add: np_sum_def fold_map comp_def)
  also have "\<dots> = Fin (0 + (\<Sum>n\<leftarrow>py_range 0 (nh + 1). fin_val (np_div (?P n) ?D)))"
    by (rule fold_np_add_Fin) (simp add: is_pos_np_div Ppos Dpos)
  also have "(\<Sum>n\<leftarrow>py_range 0 (nh + 1). fin_val (np_div (?P n) ?D)) =
             (\<Sum>n\<leftarrow>py_range 0 (nh + 1). fin_val (?P n) / fin_val ?D)"
    by (rule arg_cong [where f = sum_list], rule map_cong) (simp_all add: fin_val_np_div Ppos Dpos)
  also have "\<dots> = 1"
    using is_pos_fin_val [OF Dpos] by (simp add: sum_list_divide total)
  finally have "np_sum ?pns = Fin 1" by simp
  moreover have "calc_prob_dist m total_force = Inr ?pns"
    by (simp add: calc_prob_dist_def assms(1))
  moreover have "length ?pns = nat (nh + 1)" by simp
  ultimately show ?thesis by blast
qed


theorem calc_prob_dist_sums_to_one_witness:
  "\<exists>pns. calc_prob_dist two_head_model 7 = Inr pns \<and> length pns = 3 \<and> np_sum pns = Fin 1"
  using calc_prob_dist_sums_to_one [of two_head_model 2 7]
  by (simp add: two_head_model_def example_full_model_def)

section \<open>The off-rate of a filament\<close>

lemma calc_prob_dist_length:
  "calc_prob_dist m total_force = Inr pns \<Longrightarrow> Nh m = PyInt nh \<Longrightarrow> length pns = nat (nh + 1)"
  by (auto simp: calc_prob_dist_def)

lemma calc_prob_dist_nth_is_pos:
  assumes "0 < k_on m" and "\<And>f. is_pos (k_off m f)" and "0 \<le> j" and "j \<le> nh"
  shows "is_pos (map (\<lambda>n. np_div (calc_prob_dist_prod m nh F n) (calc_prob_dist_denom m nh F))
                     (py_range 0 (nh + 1)) ! nat j)"
proof -
  have "nat j < length (py_range 0 (nh + 1))" using assms(3,4) by simp
  moreover have "py_range 0 (nh + 1) ! nat j = j" using assms(3,4) by (simp add: nth_py_range)
  ultimately show ?thesis
    using assms by (simp add: is_pos_np_div calc_prob_dist_prod_is_pos_int calc_prob_dist_denom_is_pos)
qed

lemma k_off_fil_s_is_pos:
  assumes "\<And>j. 1 \<le> j \<Longrightarrow> j \<le> nh \<Longrightarrow> is_pos (pns ! nat j)" and "1 \<le> NB" and "NB \<le> nh"
  shows "is_pos (k_off_fil_s pns nh NB)"
  unfolding k_off_fil_s_def
proof (rule fold_np_add_is_pos)
  show "py_range NB (nh + 1) \<noteq> []" using assms(3) by (simp add: py_range_def)
  show "is_nonneg (Fin 0)" by simp
  fix j assume "j \<in> set (py_range NB (nh + 1))"
  then show "is_pos (pns ! nat j)" using assms by simp
qed

lemma k_off_fil_T_off_is_pos:
  assumes "\<And>j. 1 \<le> j \<Longrightarrow> j \<le> nh \<Longrightarrow> is_pos (pns ! nat j)" and "\<And>f. is_pos (k_off m f)"
    and "1 \<le> NB_init" and "NB_init \<le> nh"
  shows "is_pos (k_off_fil_T_off m pns nh F NB_init)"
  unfolding k_off_fil_T_off_def
proof (rule fold_np_add_is_pos)
  show "py_range 1 (NB_init + 1) \<noteq> []" using assms(3) by (simp add: py_range_def)
  show "is_nonneg (Fin 0)" by simp
  fix NB assume "NB \<in> set (py_range 1 (NB_init + 1))"
  then have nb: "1 \<le> NB" "NB \<le> nh" using assms(4) by simp_all
  have "is_pos (np_mul (np_mul (Fin (real_of_int NB)) (k_off m (F / real_of_int NB))) (pns ! nat NB))"
    using nb assms(1,2) by (intro is_pos_np_mul) simp_all
  then have "is_pos (np_div (Fin 1) (np_mul (np_mul (Fin (real_of_int NB)) (k_off m (F / real_of_int NB))) (pns ! nat NB)))"
    by (intro is_pos_np_div) simp_all
  then show "is_pos (np_mul (np_div (Fin 1)
                 (np_mul (np_mul (Fin (real_of_int NB)) (k_off m (F / real_of_int NB))) (pns ! nat NB)))
               (k_off_fil_s pns nh NB))"
    using k_off_fil_s_is_pos [OF assms(1) nb] by (intro is_pos_np_mul) simp_all
qed

text \<open>
  Claim C5. For every full model with \<open>k_on > 0\<close>, \<open>Nh \<ge> 1\<close> and unloaded off-rates that
  are not negative and not both zero, \<open>k_off_fil\<close> returns a strictly positive number,
  at every total force (so at every force that is not negative).
\<close>

theorem k_off_fil_strictly_positive:
  assumes "Nh m = PyInt nh" and "1 \<le> nh" and "0 < k_on m"
    and "0 \<le> k_off0_catch m" and "0 \<le> k_off0_slip m" and "0 < k_off0_catch m + k_off0_slip m"
  shows "\<exists>r. k_off_fil m total_force = Inr (Fin r) \<and> 0 < r"
proof -
  let ?pns = "map (\<lambda>n. np_div (calc_prob_dist_prod m nh total_force n) (calc_prob_dist_denom m nh total_force))
                  (py_range 0 (nh + 1))"
  let ?T = "fold (\<lambda>NB_init T_off_av. np_add T_off_av (np_mul (?pns ! nat NB_init)
                     (k_off_fil_T_off m ?pns nh total_force NB_init)))
                 (py_range 1 (nh + 1)) (Fin 0)"
  have kpos: "\<And>f. is_pos (k_off m f)" using assms(4-6) by (rule k_off_is_pos)
  have ppos: "\<And>j. 1 \<le> j \<Longrightarrow> j \<le> nh \<Longrightarrow> is_pos (?pns ! nat j)"
    using calc_prob_dist_nth_is_pos [OF assms(3) kpos] by simp
  have ne: "py_range 1 (nh + 1) \<noteq> []" using assms(2) by (simp add: py_range_def)
  have "is_pos ?T"
  proof (rule fold_np_add_is_pos)
    show "py_range 1 (nh + 1) \<noteq> []" by (rule ne)
    show "is_nonneg (Fin 0)" by simp
    fix NB_init assume "NB_init \<in> set (py_range 1 (nh + 1))"
    then have nb: "1 \<le> NB_init" "NB_init \<le> nh" by simp_all
    show "is_pos (np_mul (?pns ! nat NB_init) (k_off_fil_T_off m ?pns nh total_force NB_init))"
      using ppos [OF nb] k_off_fil_T_off_is_pos [OF ppos kpos nb] by (rule is_pos_np_mul)
  qed
  then have "is_pos (np_div (Fin 1) ?T)" by (intro is_pos_np_div) simp_all
  moreover have "k_off_fil m total_force = Inr (np_div (Fin 1) ?T)"
    using ne by (simp add: k_off_fil_def calc_prob_dist_def assms(1) Let_def)
  ultimately show ?thesis by (auto elim: is_pos_cases)
qed


theorem k_off_fil_strictly_positive_witness:
  "\<exists>r. k_off_fil two_head_model 7 = Inr (Fin r) \<and> 0 < r"
  using k_off_fil_strictly_positive [of two_head_model 2 7]
  by (simp add: two_head_model_def example_full_model_def)

section \<open>A filament with one head\<close>

lemma py_range_1_2 [simp]: "py_range 1 2 = [1]"
  by (simp add: py_range_def)

lemma py_range_0_1 [simp]: "py_range 0 1 = [0]"
  by (simp add: py_range_def)

lemma py_range_0_2 [simp]: "py_range 0 2 = [0, 1]"
  by (simp add: py_range_def upto.simps)

lemma k_off_fil_one_head_value:
  assumes "Nh m = PyInt 1" and "0 < k_on m" and "k_off m total_force = Fin h" and "0 < h"
  shows "k_off_fil m total_force = Inr (Fin (h * (k_on m + h) / k_on m))"
proof -
  define c where "c = k_on m / h"
  define p1 where "p1 = c / (1 + c)"
  let ?pns = "[Fin (1 / (1 + c)), Fin p1]"
  have c: "0 < c" using assms(2,4) by (simp add: c_def)
  then have p1: "0 < p1" by (simp add: p1_def add_pos_pos)
  have nz: "1 + c \<noteq> 0" using c by simp
  have hp: "h * p1 \<noteq> 0" using p1 assms(4) by simp
  have P1: "calc_prob_dist_prod m 1 total_force 1 = Fin c"
    using assms by (simp add: calc_prob_dist_prod_def c_def)
  have D: "calc_prob_dist_denom m 1 total_force = Fin (1 + c)"
    by (simp add: calc_prob_dist_denom_def P1)
  have pns: "calc_prob_dist m total_force = Inr ?pns"
    using nz by (simp add: calc_prob_dist_def assms(1) P1 D p1_def)
  have S: "k_off_fil_s ?pns 1 1 = Fin p1"
    by (simp add: k_off_fil_s_def)
  have T: "k_off_fil_T_off m ?pns 1 total_force 1 = Fin (1 / (h * p1) * p1)"
    using hp by (simp add: k_off_fil_T_off_def S assms(3))
  have tz: "p1 * (1 / (h * p1) * p1) \<noteq> 0" using hp p1 by simp
  have "k_off_fil m total_force = Inr (Fin (1 / (p1 * (1 / (h * p1) * p1))))"
    using tz p1 assms(4) by (simp add: k_off_fil_def pns assms(1) T)
  also have "1 / (p1 * (1 / (h * p1) * p1)) = h / p1"
    using p1 assms(4) by (simp add: field_simps)
  also have "h / p1 = h * (k_on m + h) / k_on m"
    using assms(2,4) by (simp add: p1_def c_def field_simps)
  finally show ?thesis .
qed

text \<open>
  Claim C2, as stated: with \<open>Nh = 1\<close> and \<open>k_on > 0\<close> the off-rate of the filament equals
  the off-rate of the head. For the model with one head, \<open>k_on = 1\<close> and head off-rate 1
  at force 0, \<open>k_off_fil\<close> returns 2.
\<close>

theorem single_head_counterexample:
  "k_off_fil single_head_model 0 \<noteq> Inr (k_off single_head_model 0)"
proof -
  have "k_off single_head_model 0 = Fin 1" by (simp add: k_off_def single_head_model_def example_full_model_def)
  moreover from this have "k_off_fil single_head_model 0 = Inr (Fin (1 * (1 + 1) / 1))"
    using k_off_fil_one_head_value [of single_head_model 0 1]
    by (simp add: single_head_model_def example_full_model_def)
  ultimately show ?thesis by simp
qed

text \<open>
  Claim C2, amended: for a full model with \<open>Nh = 1\<close> and \<open>k_on > 0\<close>, at every force where
  the off-rate \<open>h\<close> of the head is positive, \<open>k_off_fil\<close> returns \<open>h (k_on + h) / k_on\<close>: the
  off-rate of the head divided by the probability \<open>k_on / (k_on + h)\<close> that the head is
  bound.
\<close>

theorem k_off_fil_single_head:
  assumes "Nh m = PyInt 1" and "0 < k_on m" and "is_pos (k_off m total_force)"
  shows "\<exists>h. k_off m total_force = Fin h \<and>
             k_off_fil m total_force = Inr (Fin (h * (k_on m + h) / k_on m))"
proof -
  from assms(3) obtain h where h: "k_off m total_force = Fin h" "0 < h"
    by (rule is_pos_cases)
  with assms(1,2) have "k_off_fil m total_force = Inr (Fin (h * (k_on m + h) / k_on m))"
    by (intro k_off_fil_one_head_value)
  with h(1) show ?thesis by blast
qed

theorem k_off_fil_single_head_witness:
  "k_off single_head_model 0 = Fin 1 \<and> k_off_fil single_head_model 0 = Inr (Fin 2)"
  using k_off_fil_single_head [of single_head_model 0]
  by (simp add: single_head_model_def example_full_model_def k_off_def)

section \<open>Zero off-rates\<close>

lemma np_add_NaN_right [simp]: "np_add a NaN = NaN"
  by (cases a) simp_all

lemma np_add_PInf_right: "a \<noteq> NInf \<Longrightarrow> a \<noteq> NaN \<Longrightarrow> np_add a PInf = PInf"
  by (cases a) simp_all

lemma fold_np_add_NaN:
  "(\<And>x. x \<in> set xs \<Longrightarrow> g x = NaN) \<Longrightarrow> xs \<noteq> [] \<Longrightarrow> fold (\<lambda>k acc. np_add acc (g k)) xs a = NaN"
proof (induction xs arbitrary: a)
  case Nil
  then show ?case by simp
next
  case (Cons x xs)
  show ?case
  proof (cases "xs = []")
    case True
    then show ?thesis using Cons.prems by simp
  next
    case False
    then show ?thesis using Cons.IH [of "np_add a (g x)"] Cons.prems by simp
  qed
qed

lemma fold_np_add_PInf:
  "(\<And>x. x \<in> set xs \<Longrightarrow> g x = PInf) \<Longrightarrow> xs \<noteq> [] \<Longrightarrow> a \<noteq> NInf \<Longrightarrow> a \<noteq> NaN \<Longrightarrow>
   fold (\<lambda>k acc. np_add acc (g k)) xs a = PInf"
proof (induction xs arbitrary: a)
  case Nil
  then show ?case by simp
next
  case (Cons x xs)
  have a: "np_add a (g x) = PInf" using Cons.prems by (simp add: np_add_PInf_right)
  show ?case
  proof (cases "xs = []")
    case True
    then show ?thesis using a by simp
  next
    case False
    then show ?thesis using Cons.IH [of "np_add a (g x)"] Cons.prems a by simp
  qed
qed

lemma k_off_zero_rates: "k_off0_catch m = 0 \<Longrightarrow> k_off0_slip m = 0 \<Longrightarrow> k_off m f = Fin 0"
  by (simp add: k_off_def)

lemma calc_prob_dist_prod_PInf:
  assumes "0 < k_on m" and "\<And>f. k_off m f = Fin 0"
  shows "int (Suc k) \<le> nh \<Longrightarrow> calc_prob_dist_prod m nh F (int (Suc k)) = PInf"
proof (induction k)
  case 0
  have "0 < real_of_int nh * k_on m" using 0 assms(1) by simp
  then show ?case
    using calc_prob_dist_prod_step [of 0 m nh F] by (simp add: assms(2) inf_of_sign_def)
next
  case (Suc k)
  have ih: "calc_prob_dist_prod m nh F (int (Suc k)) = PInf" using Suc by simp
  have "0 < real_of_int (nh - int (Suc k)) * k_on m" using Suc.prems assms(1) by simp
  then have "np_mul PInf (Fin (real_of_int (nh - int (Suc k)) * k_on m)) = PInf"
    by (simp add: inf_of_sign_def)
  then show ?case
    using calc_prob_dist_prod_step [of "int (Suc k)" m nh F] ih
    by (simp add: assms(2) add.commute)
qed

lemma calc_prob_dist_prod_PInf_int:
  assumes "0 < k_on m" and "\<And>f. k_off m f = Fin 0" and "1 \<le> n" and "n \<le> nh"
  shows "calc_prob_dist_prod m nh F n = PInf"
proof -
  have "n = int (Suc (nat (n - 1)))" using assms(3) by simp
  then show ?thesis using calc_prob_dist_prod_PInf [OF assms(1,2), of "nat (n - 1)" nh F] assms(4)
    by simp
qed

text \<open>
  Claim C6, as stated: where an off-rate in a denominator is zero, the computation
  guards the division and does not return an undefined value. For the model with two
  heads and both unloaded off-rates zero, the off-rate of the head is 0 and
  \<open>k_off_fil\<close> divides by it and returns \<open>nan\<close>.
\<close>

theorem zero_off_rate_counterexample:
  "k_off zero_rate_model 0 = Fin 0 \<and> k_off_fil zero_rate_model 0 = Inr NaN"
  by (simp add: k_off_fil_def k_off_fil_T_off_def k_off_fil_s_def calc_prob_dist_def
      calc_prob_dist_denom_def calc_prob_dist_prod_def py_range_def upto.simps k_off_def
      zero_rate_model_def example_full_model_def inf_of_sign_def)

text \<open>
  Claim C6, amended: \<open>k_off_fil\<close> carries out every division without a guard. For a
  full model with \<open>Nh \<ge> 1\<close>, \<open>k_on > 0\<close> and both unloaded off-rates zero, every off-rate
  in a denominator is zero, no error is raised, and the result is \<open>nan\<close> at every force.
\<close>

theorem k_off_fil_zero_rates:
  assumes "Nh m = PyInt nh" and "1 \<le> nh" and "0 < k_on m"
    and "k_off0_catch m = 0" and "k_off0_slip m = 0"
  shows "k_off_fil m total_force = Inr NaN"
proof -
  let ?P = "calc_prob_dist_prod m nh total_force"
  let ?D = "calc_prob_dist_denom m nh total_force"
  let ?pns = "map (\<lambda>n. np_div (?P n) ?D) (py_range 0 (nh + 1))"
  have k0: "\<And>f. k_off m f = Fin 0" using assms(4,5) by (rule k_off_zero_rates)
  have ne: "py_range 1 (nh + 1) \<noteq> []" using assms(2) by (simp add: py_range_def)
  have P: "\<And>n. 1 \<le> n \<Longrightarrow> n \<le> nh \<Longrightarrow> ?P n = PInf"
    using calc_prob_dist_prod_PInf_int [OF assms(3) k0] by simp
  have D: "?D = PInf"
    unfolding calc_prob_dist_denom_def by (rule fold_np_add_PInf) (simp_all add: P ne)
  have pns: "?pns ! nat j = NaN" if "1 \<le> j" and "j \<le> nh" for j
  proof -
    have "nat j < length (py_range 0 (nh + 1))" using that by simp
    moreover have "py_range 0 (nh + 1) ! nat j = j" using that by (simp add: nth_py_range)
    ultimately show ?thesis using that by (simp add: P D)
  qed
  have "fold (\<lambda>NB_init T_off_av. np_add T_off_av (np_mul (?pns ! nat NB_init)
                 (k_off_fil_T_off m ?pns nh total_force NB_init)))
             (py_range 1 (nh + 1)) (Fin 0) = NaN"
  proof (rule fold_np_add_NaN)
    show "py_range 1 (nh + 1) \<noteq> []" by (rule ne)
    fix NB_init assume "NB_init \<in> set (py_range 1 (nh + 1))"
    then have "?pns ! nat NB_init = NaN" by (intro pns) simp_all
    then show "np_mul (?pns ! nat NB_init) (k_off_fil_T_off m ?pns nh total_force NB_init) = NaN"
      by (simp only: np_mul.simps)
  qed
  then show ?thesis
    using ne by (simp add: k_off_fil_def calc_prob_dist_def assms(1) Let_def)
qed


theorem k_off_fil_zero_rates_witness:
  "k_off_fil zero_rate_model 7 = Inr NaN"
  using k_off_fil_zero_rates [of zero_rate_model 2 7]
  by (simp add: zero_rate_model_def example_full_model_def)

section \<open>Loading the parameters\<close>

lemma list_index_Some: "list_index xs x = Some i \<Longrightarrow> i < length xs \<and> xs ! i = x"
  by (induction xs arbitrary: i) (auto split: if_splits)

lemma file_keys_Cons:
  "file_keys (line # lines) =
     (if str_split line = [] then file_keys lines else hd (str_split line) # file_keys lines)"
  by (simp add: file_keys_def)

lemma load_lines_error:
  "load_lines py_float py_int names lines st = Inl e \<Longrightarrow> e = IndexError"
proof (induction py_float py_int names lines st rule: load_lines.induct)
  case (1 py_float py_int parameter_names st)
  then show ?case by simp
next
  case (2 py_float py_int parameter_names line lines parameters parameters_found)
  then show ?case
    by (auto split: list.splits option.splits if_splits)
qed

lemma load_lines_step:
  assumes "load_lines py_float py_int names (line # lines) (ps, found) = Inr res"
  shows "\<exists>ps1 found1. load_lines py_float py_int names lines (ps1, found1) = Inr res \<and>
           length ps1 = length ps \<and> length found1 = length found \<and>
           (\<forall>i < length found. found1 ! i \<noteq> found ! i \<longrightarrow>
              i < length names \<and> str_split line \<noteq> [] \<and> names ! i = hd (str_split line))"
proof (cases "str_split line")
  case Nil
  then show ?thesis using assms by simp
next
  case (Cons w0 ws)
  show ?thesis
  proof (cases "list_index names w0")
    case None
    then show ?thesis using assms Cons by auto
  next
    case (Some idx)
    then have idx: "idx < length names" "names ! idx = w0"
      using list_index_Some by metis+
    from assms Cons Some obtain w1 w2 rest where ws: "ws = w1 # w2 # rest"
      by (auto split: list.splits)
    have upd: "\<forall>i < length found. found[idx := 1] ! i \<noteq> found ! i \<longrightarrow>
              i < length names \<and> str_split line \<noteq> [] \<and> names ! i = hd (str_split line)"
    proof (intro allI impI)
      fix i assume i: "i < length found" "found[idx := 1] ! i \<noteq> found ! i"
      then have "i = idx" by (cases "i = idx") simp_all
      then show "i < length names \<and> str_split line \<noteq> [] \<and> names ! i = hd (str_split line)"
        using idx Cons by simp
    qed
    let ?r = "if w0 = ''N_h'' \<or> w0 = ''N_max'' then map_option PyInt (py_int w2)
              else map_option PyFloat (py_float w2)"
    show ?thesis
    proof (cases ?r)
      case None
      then have "load_lines py_float py_int names lines (ps, found[idx := 1]) = Inr res"
        using assms Cons Some ws by simp
      then show ?thesis using upd by (intro exI [of _ ps] exI [of _ "found[idx := 1]"]) simp
    next
      case (Some v)
      then have "load_lines py_float py_int names lines (ps[idx := v], found[idx := 1]) = Inr res"
        using assms Cons \<open>list_index names w0 = Some idx\<close> ws by simp
      then show ?thesis
        using upd by (intro exI [of _ "ps[idx := v]"] exI [of _ "found[idx := 1]"]) simp
    qed
  qed
qed

lemma load_lines_found:
  "load_lines py_float py_int names lines (ps, found) = Inr (ps', found') \<Longrightarrow>
   length ps' = length ps \<and> length found' = length found \<and>
   (\<forall>i < length found. found' ! i \<noteq> found ! i \<longrightarrow> i < length names \<and> names ! i \<in> set (file_keys lines))"
proof (induction lines arbitrary: ps found)
  case Nil
  then show ?case by simp
next
  case (Cons line lines)
  from load_lines_step [OF Cons.prems] obtain ps1 found1 where
    run: "load_lines py_float py_int names lines (ps1, found1) = Inr (ps', found')" and
    len: "length ps1 = length ps" "length found1 = length found" and
    upd: "\<forall>i < length found. found1 ! i \<noteq> found ! i \<longrightarrow>
              i < length names \<and> str_split line \<noteq> [] \<and> names ! i = hd (str_split line)"
    by blast
  note ih = Cons.IH [OF run]
  show ?case
  proof (intro conjI allI impI)
    show "length ps' = length ps" using ih len by simp
    show "length found' = length found" using ih len by simp
    fix i assume i: "i < length found" "found' ! i \<noteq> found ! i"
    show "i < length names"
      using ih i len upd by (cases "found1 ! i = found ! i") auto
    show "names ! i \<in> set (file_keys (line # lines))"
      using ih i len upd by (cases "found1 ! i = found ! i") (auto simp: file_keys_Cons)
  qed
qed

lemma load_parameters_full_model_Inr:
  assumes "load_parameters py_float py_int ''full model'' parameter_file = Inr ps"
  shows "length ps = 13 \<and> set full_model_parameter_names \<subseteq> set (file_keys parameter_file)"
proof -
  let ?names = full_model_parameter_names
  from assms obtain found where
    run: "load_lines py_float py_int ?names parameter_file
            (replicate (length ?names) (PyFloat 0), replicate (length ?names) 0) = Inr (ps, found)"
    and nz: "0 \<notin> set found"
    by (auto simp: load_parameters_def split: sum.splits if_splits)
  note inv = load_lines_found [OF run]
  have len: "length ?names = 13" by (simp add: full_model_parameter_names_def)
  have "?names ! i \<in> set (file_keys parameter_file)" if "i < length ?names" for i
  proof -
    have "found ! i \<in> set found" using inv that by simp
    then have "found ! i \<noteq> 0" using nz by metis
    then show ?thesis using inv that by simp
  qed
  then have "set ?names \<subseteq> set (file_keys parameter_file)"
    by (auto simp: in_set_conv_nth)
  then show ?thesis using inv len by simp
qed

lemma load_parameters_Inl:
  assumes "load_parameters py_float py_int model_type parameter_file = Inl e"
  shows "e = SystemExit 1 \<or> e = IndexError"
  using assms load_lines_error
  by (fastforce simp: load_parameters_def split: sum.splits if_splits option.splits)


lemma example_full_file_load:
  "load_parameters example_float example_int ''full model'' (example_full_file ''1'' ''1'' ''2'') =
     Inr [PyFloat 1, PyFloat 1, PyFloat 1, PyFloat 1, PyFloat 1, PyFloat 1, PyFloat 1, PyInt 2, PyInt 10,
          PyFloat 1, PyFloat 1, PyFloat 2, PyFloat 10]"
  by (simp add: load_parameters_def full_model_parameter_names_def example_full_file_def
      str_split_def is_space_def example_float_def example_int_def)

lemma list_index_None: "(list_index xs x = None) = (x \<notin> set xs)"
  by (induction xs) auto

lemma list_index_nth: "distinct xs \<Longrightarrow> i < length xs \<Longrightarrow> list_index xs (xs ! i) = Some i"
proof (induction xs arbitrary: i)
  case Nil
  then show ?case by simp
next
  case (Cons x xs)
  show ?case
  proof (cases i)
    case 0
    then show ?thesis by simp
  next
    case (Suc j)
    then have "xs ! j \<in> set xs" using Cons.prems by simp
    then have "x \<noteq> xs ! j" using Cons.prems by auto
    then show ?thesis using Suc Cons by simp
  qed
qed

lemma load_lines_well_formed:
  "(\<And>line. line \<in> set lines \<Longrightarrow> line_well_formed names line) \<Longrightarrow>
   \<exists>res. load_lines py_float py_int names lines st = Inr res"
proof (induction lines arbitrary: st)
  case Nil
  show ?case by simp
next
  case (Cons line lines)
  obtain ps found where st: "st = (ps, found)" by (cases st)
  have wf: "line_well_formed names line" using Cons.prems by simp
  have rest: "\<And>st'. \<exists>res. load_lines py_float py_int names lines st' = Inr res"
    using Cons.IH Cons.prems by simp
  from wf obtain w0 ws where sp: "str_split line = w0 # ws" and ok: "w0 \<notin> set names \<or> 2 \<le> length ws"
    by (auto simp: line_well_formed_def split: list.splits)
  show ?case
  proof (cases "list_index names w0")
    case None
    then show ?thesis using rest sp st by simp
  next
    case (Some idx)
    then have "w0 \<in> set names" using list_index_None [of names w0] by auto
    with ok obtain w1 w2 tl where ws: "ws = w1 # w2 # tl"
      by (cases ws; cases "tl ws") auto
    show ?thesis
      using rest sp st Some ws by (simp split: option.splits)
  qed
qed

lemma load_parameters_well_formed_Inl:
  assumes "\<And>line. line \<in> set parameter_file \<Longrightarrow> line_well_formed full_model_parameter_names line"
    and "load_parameters py_float py_int ''full model'' parameter_file = Inl e"
  shows "e = SystemExit 1"
proof -
  from load_lines_well_formed [OF assms(1)] obtain res where
    "load_lines py_float py_int full_model_parameter_names parameter_file
       (replicate (length full_model_parameter_names) (PyFloat 0),
        replicate (length full_model_parameter_names) 0) = Inr res"
    by blast
  then show ?thesis
    using assms(2) by (cases res) (auto simp: load_parameters_def split: if_splits)
qed

lemma load_lines_value_step:
  assumes "load_lines py_float py_int names (line # lines) (ps, found) = Inr res"
  shows "\<exists>ps1 found1. load_lines py_float py_int names lines (ps1, found1) = Inr res \<and>
           length ps1 = length ps \<and>
           (\<forall>i. i < length ps \<and> i < length names \<and> distinct names \<longrightarrow>
              ps1 ! i = (case read_value py_float py_int (names ! i) line of
                           None \<Rightarrow> ps ! i | Some v \<Rightarrow> v))"
proof (cases "str_split line")
  case Nil
  then show ?thesis using assms by simp
next
  case (Cons w0 ws)
  show ?thesis
  proof (cases "list_index names w0")
    case None
    have "read_value py_float py_int (names ! i) line = None" if "i < length names" for i
    proof -
      have "w0 \<noteq> names ! i" using None that list_index_None [of names w0] by auto
      then show ?thesis by (simp add: read_value_def Cons split: list.splits)
    qed
    moreover have "load_lines py_float py_int names lines (ps, found) = Inr res"
      using assms Cons None by simp
    ultimately show ?thesis by (intro exI [of _ ps] exI [of _ found]) simp
  next
    case (Some idx)
    then have idx: "idx < length names" "names ! idx = w0"
      using list_index_Some by metis+
    from assms Cons Some obtain w1 w2 rest where ws: "ws = w1 # w2 # rest"
      by (auto split: list.splits)
    let ?r = "if w0 = ''N_h'' \<or> w0 = ''N_max'' then map_option PyInt (py_int w2)
              else map_option PyFloat (py_float w2)"
    have same: "read_value py_float py_int (names ! idx) line = ?r"
      by (simp add: read_value_def Cons ws idx)
    have other: "read_value py_float py_int (names ! i) line = None"
      if "i < length names" "distinct names" "i \<noteq> idx" for i
    proof -
      have "names ! i \<noteq> names ! idx" using that idx(1) by (simp add: nth_eq_iff_index_eq)
      then show ?thesis by (simp add: read_value_def Cons ws idx)
    qed
    show ?thesis
    proof (cases ?r)
      case None
      then have run: "load_lines py_float py_int names lines (ps, found[idx := 1]) = Inr res"
        using assms Cons Some ws by simp
      have "ps ! i = (case read_value py_float py_int (names ! i) line of None \<Rightarrow> ps ! i | Some v \<Rightarrow> v)"
        if "i < length names" "distinct names" for i
        using that other [of i] same None by (cases "i = idx") simp_all
      with run show ?thesis by (intro exI [of _ ps] exI [of _ "found[idx := 1]"]) simp
    next
      case (Some v)
      then have run: "load_lines py_float py_int names lines (ps[idx := v], found[idx := 1]) = Inr res"
        using assms Cons \<open>list_index names w0 = Some idx\<close> ws by simp
      have "ps[idx := v] ! i = (case read_value py_float py_int (names ! i) line of None \<Rightarrow> ps ! i | Some v \<Rightarrow> v)"
        if "i < length ps" "i < length names" "distinct names" for i
        using that other [of i] same Some by (cases "i = idx") simp_all
      with run show ?thesis by (intro exI [of _ "ps[idx := v]"] exI [of _ "found[idx := 1]"]) simp
    qed
  qed
qed

lemma load_lines_values:
  "load_lines py_float py_int names lines (ps, found) = Inr (ps', found') \<Longrightarrow>
   distinct names \<Longrightarrow> i < length ps \<Longrightarrow> i < length names \<Longrightarrow>
   ps' ! i = (case file_value py_float py_int (names ! i) lines of None \<Rightarrow> ps ! i | Some v \<Rightarrow> v)"
proof (induction lines arbitrary: ps found)
  case Nil
  then show ?case by simp
next
  case (Cons line lines)
  from load_lines_value_step [OF Cons.prems(1)] obtain ps1 found1 where
    run: "load_lines py_float py_int names lines (ps1, found1) = Inr (ps', found')" and
    len: "length ps1 = length ps" and
    val: "\<forall>i. i < length ps \<and> i < length names \<and> distinct names \<longrightarrow>
              ps1 ! i = (case read_value py_float py_int (names ! i) line of
                           None \<Rightarrow> ps ! i | Some v \<Rightarrow> v)"
    by blast
  have ih: "ps' ! i = (case file_value py_float py_int (names ! i) lines of None \<Rightarrow> ps1 ! i | Some v \<Rightarrow> v)"
    using Cons.IH [OF run Cons.prems(2)] Cons.prems(3,4) len by simp
  have v1: "ps1 ! i = (case read_value py_float py_int (names ! i) line of None \<Rightarrow> ps ! i | Some v \<Rightarrow> v)"
    using val Cons.prems by blast
  show ?case
    unfolding ih v1 by (simp split: option.splits)
qed


lemma distinct_full_model_parameter_names: "distinct full_model_parameter_names"
  by (simp add: full_model_parameter_names_def)

lemma load_parameters_full_model_values:
  assumes "load_parameters py_float py_int ''full model'' parameter_file = Inr ps"
    and "i < 13"
  shows "ps ! i = (case file_value py_float py_int (full_model_parameter_names ! i) parameter_file of
                     None \<Rightarrow> PyFloat 0 | Some v \<Rightarrow> v)"
proof -
  let ?names = full_model_parameter_names
  have len: "length ?names = 13" by (simp add: full_model_parameter_names_def)
  from assms(1) obtain found where
    run: "load_lines py_float py_int ?names parameter_file
            (replicate (length ?names) (PyFloat 0), replicate (length ?names) 0) = Inr (ps, found)"
    by (auto simp: load_parameters_def split: sum.splits if_splits)
  from load_lines_values [OF run distinct_full_model_parameter_names, of i] assms(2) len
  show ?thesis by (simp split: option.splits)
qed

text \<open>
  Claim C10, as stated: a parameter file that lacks a required key of the full model
  makes \<open>load_parameters\<close> fail with the configuration error, and a returned list is
  fully populated. The example file without its \<open>R0\<close> line and with an empty last
  line ends in an uncaught \<open>IndexError\<close> instead; and the example file with
  \<open>N_h = 2.5\<close>, whose value \<open>int\<close> cannot read, has every key and is loaded with the
  initial \<open>0.\<close> left in the place of \<open>N_h\<close>.
\<close>

theorem load_parameters_full_model_counterexample:
  "''R0'' \<in> set full_model_parameter_names \<and>
   ''R0'' \<notin> set (file_keys (butlast (example_full_file ''1'' ''1'' ''2'') @ [[]])) \<and>
   load_parameters example_float example_int ''full model''
     (butlast (example_full_file ''1'' ''1'' ''2'') @ [[]]) = Inl IndexError \<and>
   set full_model_parameter_names \<subseteq> set (file_keys (example_full_file ''1'' ''1'' ''2.5'')) \<and>
   example_int ''2.5'' = None \<and>
   load_parameters example_float example_int ''full model'' (example_full_file ''1'' ''1'' ''2.5'') =
     Inr [PyFloat 1, PyFloat 1, PyFloat 1, PyFloat 1, PyFloat 1, PyFloat 1, PyFloat 1, PyFloat 0, PyInt 10,
          PyFloat 1, PyFloat 1, PyFloat 2, PyFloat 10]"
  by (simp add: load_parameters_def full_model_parameter_names_def example_full_file_def
      str_split_def is_space_def example_float_def example_int_def file_keys_def)

text \<open>
  Claim C10, amended: for a parameter file whose lines are all well formed and that
  lacks a required key of the full model, \<open>load_parameters('full model', file)\<close> ends the
  run with \<open>sys.exit(1)\<close>, and so does the construction of the model; and when
  \<open>load_parameters\<close> returns, it returns thirteen values, every required key is present
  in the file, and every key to which the file gives a readable value holds the value
  of the last line that gives it one.
\<close>

theorem load_parameters_full_model_complete:
  "(name \<in> set full_model_parameter_names \<and> name \<notin> set (file_keys parameter_file) \<and>
    (\<forall>line \<in> set parameter_file. line_well_formed full_model_parameter_names line) \<longrightarrow>
      load_parameters py_float py_int ''full model'' parameter_file = Inl (SystemExit 1) \<and>
      FullModel_init py_float py_int parameter_file pillar_stiffness = Inl (SystemExit 1)) \<and>
   (load_parameters py_float py_int ''full model'' parameter_file = Inr ps \<longrightarrow>
      length ps = 13 \<and> set full_model_parameter_names \<subseteq> set (file_keys parameter_file) \<and>
      (\<forall>i < 13. \<forall>v. file_value py_float py_int (full_model_parameter_names ! i) parameter_file = Some v
                     \<longrightarrow> ps ! i = v))"
proof -
  have 1: "load_parameters py_float py_int ''full model'' parameter_file = Inl (SystemExit 1) \<and>
      FullModel_init py_float py_int parameter_file pillar_stiffness = Inl (SystemExit 1)"
    if h: "name \<in> set full_model_parameter_names \<and> name \<notin> set (file_keys parameter_file) \<and>
           (\<forall>line \<in> set parameter_file. line_well_formed full_model_parameter_names line)"
  proof -
    obtain e where e: "load_parameters py_float py_int ''full model'' parameter_file = Inl e"
    proof (cases "load_parameters py_float py_int ''full model'' parameter_file")
      case (Inl e)
      then show ?thesis using that by blast
    next
      case (Inr ps')
      then show ?thesis using load_parameters_full_model_Inr [OF Inr] h by blast
    qed
    have "e = SystemExit 1"
      using h by (intro load_parameters_well_formed_Inl [OF _ e]) blast
    with e show ?thesis by (simp add: FullModel_init_def)
  qed
  have 2: "length ps = 13 \<and> set full_model_parameter_names \<subseteq> set (file_keys parameter_file) \<and>
      (\<forall>i < 13. \<forall>v. file_value py_float py_int (full_model_parameter_names ! i) parameter_file = Some v
                     \<longrightarrow> ps ! i = v)"
    if r: "load_parameters py_float py_int ''full model'' parameter_file = Inr ps"
    using load_parameters_full_model_Inr [OF r] load_parameters_full_model_values [OF r]
    by auto
  from 1 2 show ?thesis by blast
qed

theorem load_parameters_full_model_complete_witness:
  "load_parameters example_float example_int ''full model'' (butlast (example_full_file ''1'' ''1'' ''2'')) =
     Inl (SystemExit 1) \<and>
   FullModel_init example_float example_int (butlast (example_full_file ''1'' ''1'' ''2'')) 35 =
     Inl (SystemExit 1) \<and>
   load_parameters example_float example_int ''full model'' (example_full_file ''1'' ''1'' ''2'') =
     Inr [PyFloat 1, PyFloat 1, PyFloat 1, PyFloat 1, PyFloat 1, PyFloat 1, PyFloat 1, PyInt 2, PyInt 10,
          PyFloat 1, PyFloat 1, PyFloat 2, PyFloat 10] \<and>
   set full_model_parameter_names \<subseteq> set (file_keys (example_full_file ''1'' ''1'' ''2'')) \<and>
   file_value example_float example_int ''N_h'' (example_full_file ''1'' ''1'' ''2'') = Some (PyInt 2)"
proof -
  let ?short = "butlast (example_full_file ''1'' ''1'' ''2'')"
  have lacks: "''R0'' \<in> set full_model_parameter_names \<and> ''R0'' \<notin> set (file_keys ?short)"
    by (simp add: full_model_parameter_names_def example_full_file_def file_keys_def
        str_split_def is_space_def)
  have wf: "\<forall>line \<in> set ?short. line_well_formed full_model_parameter_names line"
    by (simp add: full_model_parameter_names_def example_full_file_def line_well_formed_def
        str_split_def is_space_def)
  have fv: "file_value example_float example_int ''N_h'' (example_full_file ''1'' ''1'' ''2'') = Some (PyInt 2)"
    by (simp add: example_full_file_def read_value_def str_split_def is_space_def
        example_float_def example_int_def)
  show ?thesis
    using load_parameters_full_model_complete [of "''R0''" ?short example_float example_int 35]
      load_parameters_full_model_complete [of "''R0''" "example_full_file ''1'' ''1'' ''2''"
        example_float example_int 35
        "[PyFloat 1, PyFloat 1, PyFloat 1, PyFloat 1, PyFloat 1, PyFloat 1, PyFloat 1, PyInt 2, PyInt 10,
          PyFloat 1, PyFloat 1, PyFloat 2, PyFloat 10]"]
      lacks wf fv example_full_file_load
    by blast
qed

section \<open>Construction and parameter lookup\<close>

lemma list_of_length_13:
  "length (ps :: 'a list) = 13 \<Longrightarrow>
   ps = [ps ! 0, ps ! 1, ps ! 2, ps ! 3, ps ! 4, ps ! 5, ps ! 6, ps ! 7, ps ! 8, ps ! 9, ps ! 10, ps ! 11, ps ! 12]"
  by (rule nth_equalityI) (auto simp: nth_Cons' less_Suc_eq numeral_eq_Suc)

lemma list_of_length_4:
  "length (ps :: 'a list) = 4 \<Longrightarrow> ps = [ps ! 0, ps ! 1, ps ! 2, ps ! 3]"
  by (rule nth_equalityI) (auto simp: nth_Cons' less_Suc_eq numeral_eq_Suc)


lemma FullModel_init_Inr:
  assumes "FullModel_init py_float py_int parameter_file pillar_stiffness = Inr m"
  shows "\<exists>ps. load_parameters py_float py_int ''full model'' parameter_file = Inr ps \<and> length ps = 13 \<and>
           pillar_stiffness \<noteq> 0 \<and>
           FullModel.parameter_dict m =
             zip FullModel_parameter_keys (ps @ [PyFloat pillar_stiffness]) \<and>
           FullModel.k_p m = pillar_stiffness \<and> Nh m = ps ! 7 \<and>
           FullModel.h_eta m = to_real (ps ! 9) \<and> FullModel.R0 m = to_real (ps ! 12) \<and>
           FullModel.A0 m = pi * FullModel.R0 m ^ 2 \<and>
           FullModel.tau m = 6 / 5 * pi * FullModel.h_eta m / FullModel.k_p m"
proof -
  from assms obtain ps where ps: "load_parameters py_float py_int ''full model'' parameter_file = Inr ps"
    by (cases "load_parameters py_float py_int ''full model'' parameter_file")
       (simp_all add: FullModel_init_def)
  have len: "length ps = 13"
    using assms by (simp add: FullModel_init_def ps split: if_splits)
  have nz: "pillar_stiffness \<noteq> 0"
    using assms by (simp add: FullModel_init_def ps split: if_splits)
  have eq: "ps @ [PyFloat pillar_stiffness] =
      [ps ! 0, ps ! 1, ps ! 2, ps ! 3, ps ! 4, ps ! 5, ps ! 6, ps ! 7, ps ! 8, ps ! 9, ps ! 10, ps ! 11,
       ps ! 12, PyFloat pillar_stiffness]"
    by (subst list_of_length_13 [OF len]) simp
  have m: "m = \<lparr>x_catch = to_real (ps ! 0), x_slip = to_real (ps ! 1),
                    k_off0_catch = to_real (ps ! 2), k_off0_slip = to_real (ps ! 3),
                    k_on = to_real (ps ! 4), k_on_fil = to_real (ps ! 5), a_per_kBT = to_real (ps ! 6),
                    Nh = ps ! 7, Nmax = ps ! 8, h_eta = to_real (ps ! 9), xi_rho_a2 = to_real (ps ! 10),
                    rho_max_per_rho = to_real (ps ! 11), R0 = to_real (ps ! 12), k_p = pillar_stiffness,
                    parameter_dict =
                      [(''x_catch'', ps ! 0), (''x_slip'', ps ! 1), (''k_off0_catch'', ps ! 2),
                       (''k_off0_slip'', ps ! 3), (''k_on'', ps ! 4), (''k_on_fil'', ps ! 5),
                       (''a_per_kBT'', ps ! 6), (''Nh'', ps ! 7), (''Nmax'', ps ! 8), (''h_eta'', ps ! 9),
                       (''xi_rho_a2'', ps ! 10), (''rho_max_per_rho'', ps ! 11), (''R0'', ps ! 12),
                       (''k_p'', PyFloat pillar_stiffness)],
                    A0 = pi * (to_real (ps ! 12)) ^ 2,
                    tau = 6 / 5 * pi * to_real (ps ! 9) / pillar_stiffness\<rparr>"
    using assms by (simp add: FullModel_init_def ps len nz)
  have dict: "FullModel.parameter_dict m = zip FullModel_parameter_keys (ps @ [PyFloat pillar_stiffness])"
    unfolding eq by (simp add: m FullModel_parameter_keys_def)
  show ?thesis
    using ps len nz dict by (simp add: m)
qed


lemma DensityModel_init_Inr:
  assumes "DensityModel_init py_float py_int parameter_file pillar_stiffness = Inr d"
  shows "\<exists>ps. load_parameters py_float py_int ''density model'' parameter_file = Inr ps \<and> length ps = 4 \<and>
           pillar_stiffness \<noteq> 0 \<and>
           parameter_dict d = zip DensityModel_parameter_keys (ps @ [PyFloat pillar_stiffness]) \<and>
           k_p d = pillar_stiffness \<and>
           h_eta d = to_real (ps ! 0) \<and> R0 d = to_real (ps ! 3) \<and>
           A0 d = pi * R0 d ^ 2 \<and> tau d = 6 / 5 * pi * h_eta d / k_p d"
proof -
  from assms obtain ps where ps: "load_parameters py_float py_int ''density model'' parameter_file = Inr ps"
    by (cases "load_parameters py_float py_int ''density model'' parameter_file")
       (simp_all add: DensityModel_init_def)
  have len: "length ps = 4"
    using assms by (simp add: DensityModel_init_def ps split: if_splits)
  have nz: "pillar_stiffness \<noteq> 0"
    using assms by (simp add: DensityModel_init_def ps split: if_splits)
  have eq: "ps @ [PyFloat pillar_stiffness] = [ps ! 0, ps ! 1, ps ! 2, ps ! 3, PyFloat pillar_stiffness]"
    by (subst list_of_length_4 [OF len]) simp
  have d: "d = \<lparr>h_eta = to_real (ps ! 0), xi_N_rho_a2 = to_real (ps ! 1),
                    rho_max_per_rho = to_real (ps ! 2), R0 = to_real (ps ! 3), k_p = pillar_stiffness,
                    parameter_dict =
                      [(''h_eta'', ps ! 0), (''xi_N_rho_a2'', ps ! 1), (''rho_max_per_rho'', ps ! 2),
                       (''R0'', ps ! 3), (''k_p'', PyFloat pillar_stiffness)],
                    A0 = pi * (to_real (ps ! 3)) ^ 2,
                    tau = 6 / 5 * pi * to_real (ps ! 0) / pillar_stiffness\<rparr>"
    using assms by (simp add: DensityModel_init_def ps len nz)
  have dict: "parameter_dict d = zip DensityModel_parameter_keys (ps @ [PyFloat pillar_stiffness])"
    unfolding eq by (simp add: d DensityModel_parameter_keys_def)
  show ?thesis
    using ps len nz dict by (simp add: d)
qed

lemma map_of_zip_lookup:
  "distinct ks \<Longrightarrow> length ks = length vs \<Longrightarrow> map (map_of (zip ks vs)) ks = map Some vs"
  by (rule nth_equalityI) (simp_all add: map_of_zip_nth)

lemma distinct_FullModel_parameter_keys: "distinct FullModel_parameter_keys"
  by (simp add: FullModel_parameter_keys_def)

lemma distinct_DensityModel_parameter_keys: "distinct DensityModel_parameter_keys"
  by (simp add: DensityModel_parameter_keys_def)

lemma get_parameter_lookup_dict:
  assumes "distinct ks" and "length ks = length vs"
  shows "map (\<lambda>name. case map_of (zip ks vs) name of None \<Rightarrow> (Inl KeyError, self) | Some v \<Rightarrow> (Inr v, self)) ks
           = map (\<lambda>v. (Inr v, self)) vs"
proof -
  have "map (\<lambda>name. case map_of (zip ks vs) name of None \<Rightarrow> (Inl KeyError, self) | Some v \<Rightarrow> (Inr v, self)) ks
      = map (\<lambda>r. case r of None \<Rightarrow> (Inl KeyError, self) | Some v \<Rightarrow> (Inr v, self)) (map (map_of (zip ks vs)) ks)"
    by (simp add: comp_def)
  also have "\<dots> = map (\<lambda>v. (Inr v, self)) vs"
    by (simp add: map_of_zip_lookup [OF assms] comp_def)
  finally show ?thesis .
qed

text \<open>
  Claim C9. For a constructed model of either variant, \<open>get_parameter\<close> on the known names
  returns the values stored at construction (the loaded parameters in their order,
  then the pillar stiffness under \<open>k_p\<close>), an unknown name raises \<open>KeyError\<close>, and the
  object after the call is the object before it.
\<close>

theorem get_parameter_lookup:
  "(FullModel_init py_float py_int parameter_file pillar_stiffness = Inr m \<longrightarrow>
      (\<exists>ps. load_parameters py_float py_int ''full model'' parameter_file = Inr ps \<and>
            map (FullModel_get_parameter m) FullModel_parameter_keys =
              map (\<lambda>v. (Inr v, m)) (ps @ [PyFloat pillar_stiffness])) \<and>
      (name \<notin> set FullModel_parameter_keys \<longrightarrow> FullModel_get_parameter m name = (Inl KeyError, m)) \<and>
      snd (FullModel_get_parameter m name) = m) \<and>
   (DensityModel_init py_float py_int parameter_file' pillar_stiffness' = Inr d \<longrightarrow>
      (\<exists>ps. load_parameters py_float py_int ''density model'' parameter_file' = Inr ps \<and>
            map (DensityModel_get_parameter d) DensityModel_parameter_keys =
              map (\<lambda>v. (Inr v, d)) (ps @ [PyFloat pillar_stiffness'])) \<and>
      (name \<notin> set DensityModel_parameter_keys \<longrightarrow> DensityModel_get_parameter d name = (Inl KeyError, d)) \<and>
      snd (DensityModel_get_parameter d name) = d)"
proof (intro conjI impI)
  assume init: "FullModel_init py_float py_int parameter_file pillar_stiffness = Inr m"
  from FullModel_init_Inr [OF init] obtain ps where
    ps: "load_parameters py_float py_int ''full model'' parameter_file = Inr ps" and len: "length ps = 13" and
    dict: "FullModel.parameter_dict m = zip FullModel_parameter_keys (ps @ [PyFloat pillar_stiffness])"
    by blast
  have l: "length FullModel_parameter_keys = length (ps @ [PyFloat pillar_stiffness])"
    using len by (simp add: FullModel_parameter_keys_def)
  have "map (FullModel_get_parameter m) FullModel_parameter_keys =
          map (\<lambda>v. (Inr v, m)) (ps @ [PyFloat pillar_stiffness])"
    using get_parameter_lookup_dict [OF distinct_FullModel_parameter_keys l, of m]
    by (simp add: FullModel_get_parameter_def [abs_def] dict)
  with ps show "\<exists>ps. load_parameters py_float py_int ''full model'' parameter_file = Inr ps \<and>
            map (FullModel_get_parameter m) FullModel_parameter_keys =
              map (\<lambda>v. (Inr v, m)) (ps @ [PyFloat pillar_stiffness])"
    by blast
  show "FullModel_get_parameter m name = (Inl KeyError, m)" if "name \<notin> set FullModel_parameter_keys"
  proof -
    have "map_of (zip FullModel_parameter_keys (ps @ [PyFloat pillar_stiffness])) name = None"
      using that l by simp
    then show ?thesis by (simp add: FullModel_get_parameter_def dict)
  qed
next
  show "snd (FullModel_get_parameter m name) = m"
    by (simp add: FullModel_get_parameter_def split: option.splits)
next
  assume init: "DensityModel_init py_float py_int parameter_file' pillar_stiffness' = Inr d"
  from DensityModel_init_Inr [OF init] obtain ps where
    ps: "load_parameters py_float py_int ''density model'' parameter_file' = Inr ps" and len: "length ps = 4" and
    dict: "parameter_dict d = zip DensityModel_parameter_keys (ps @ [PyFloat pillar_stiffness'])"
    by blast
  have l: "length DensityModel_parameter_keys = length (ps @ [PyFloat pillar_stiffness'])"
    using len by (simp add: DensityModel_parameter_keys_def)
  have "map (DensityModel_get_parameter d) DensityModel_parameter_keys =
          map (\<lambda>v. (Inr v, d)) (ps @ [PyFloat pillar_stiffness'])"
    using get_parameter_lookup_dict [OF distinct_DensityModel_parameter_keys l, of d]
    by (simp add: DensityModel_get_parameter_def [abs_def] dict)
  with ps show "\<exists>ps. load_parameters py_float py_int ''density model'' parameter_file' = Inr ps \<and>
            map (DensityModel_get_parameter d) DensityModel_parameter_keys =
              map (\<lambda>v. (Inr v, d)) (ps @ [PyFloat pillar_stiffness'])"
    by blast
  show "DensityModel_get_parameter d name = (Inl KeyError, d)" if "name \<notin> set DensityModel_parameter_keys"
  proof -
    have "map_of (zip DensityModel_parameter_keys (ps @ [PyFloat pillar_stiffness'])) name = None"
      using that l by simp
    then show ?thesis by (simp add: DensityModel_get_parameter_def dict)
  qed
next
  show "snd (DensityModel_get_parameter d name) = d"
    by (simp add: DensityModel_get_parameter_def split: option.splits)
qed


lemma example_full_file_init:
  "FullModel_init example_float example_int (example_full_file ''1'' ''0'' ''1'') 35 = Inr single_head_model"
  "FullModel_init example_float example_int (example_full_file ''1'' ''1'' ''2'') 35 = Inr two_head_model"
  "FullModel_init example_float example_int (example_full_file ''0'' ''0'' ''2'') 35 = Inr zero_rate_model"
  "FullModel_init example_float example_int (example_full_file ''1'' ''1'' ''0'') 35 = Inr headless_model"
  by (simp_all add: FullModel_init_def load_parameters_def full_model_parameter_names_def
      example_full_file_def str_split_def is_space_def example_float_def example_int_def
      single_head_model_def two_head_model_def zero_rate_model_def headless_model_def
      example_full_model_def)

lemma example_density_file_init:
  "DensityModel_init example_float example_int (example_density_file ''1'') 35 = Inr (example_density_model 1)"
  "DensityModel_init example_float example_int (example_density_file ''0'') 35 = Inr (example_density_model 0)"
  by (simp_all add: DensityModel_init_def load_parameters_def density_model_parameter_names_def
      example_density_file_def str_split_def is_space_def example_float_def example_int_def
      example_density_model_def)

theorem get_parameter_lookup_witness:
  "FullModel_get_parameter two_head_model ''k_p'' = (Inr (PyFloat 35), two_head_model) \<and>
   FullModel_get_parameter two_head_model ''Nh'' = (Inr (PyInt 2), two_head_model) \<and>
   FullModel_get_parameter two_head_model ''N_h'' = (Inl KeyError, two_head_model) \<and>
   DensityModel_get_parameter (example_density_model 1) ''R0'' = (Inr (PyFloat 10), example_density_model 1) \<and>
   DensityModel_get_parameter (example_density_model 1) ''Nh'' = (Inl KeyError, example_density_model 1)"
  using get_parameter_lookup [of example_float example_int "example_full_file ''1'' ''1'' ''2''" 35
      two_head_model "''N_h''" "example_density_file ''1''" 35 "example_density_model 1"]
    get_parameter_lookup [of example_float example_int "example_full_file ''1'' ''1'' ''2''" 35
      two_head_model "''Nh''" "example_density_file ''1''" 35 "example_density_model 1"]
    example_full_file_init(2) example_density_file_init(1)
  by (simp add: FullModel_parameter_keys_def DensityModel_parameter_keys_def
      FullModel_get_parameter_def DensityModel_get_parameter_def two_head_model_def
      example_full_model_def example_density_model_def)

section \<open>The right-hand side and the velocity\<close>

lemma is_finite_simps [simp]:
  "is_finite (Fin r)" "\<not> is_finite PInf" "\<not> is_finite NInf" "\<not> is_finite NaN"
  by (simp_all add: is_finite_def)

lemma np_div_by_zero_not_finite: "\<not> is_finite (np_div a (Fin 0))"
  by (cases a) (simp_all add: inf_of_sign_def)

lemma np_mul_not_finite_left: "\<not> is_finite a \<Longrightarrow> \<not> is_finite (np_mul a b)"
  by (cases a; cases b) (simp_all add: inf_of_sign_def)

lemma np_mul_not_finite_right: "\<not> is_finite b \<Longrightarrow> \<not> is_finite (np_mul a b)"
  by (cases a; cases b) (simp_all add: inf_of_sign_def)

lemma np_div_not_finite_num: "\<not> is_finite a \<Longrightarrow> \<not> is_finite (np_div a b)"
  by (cases a; cases b) simp_all

lemma np_add_not_finite_right: "\<not> is_finite b \<Longrightarrow> \<not> is_finite (np_add a b)"
  by (cases a; cases b) simp_all

lemma k_off_fil_returns:
  "Nh m = PyInt nh \<Longrightarrow> 1 \<le> nh \<Longrightarrow> \<exists>k. k_off_fil m total_force = Inr k"
  by (simp add: k_off_fil_def calc_prob_dist_def Let_def py_range_def)

lemma area_zero_iff:
  "k \<noteq> 0 \<Longrightarrow> (pi * (r - force / k) ^ 2 = 0) = (force = k * r)"
  by (auto simp: field_simps)

lemma tau_zero_iff:
  "k \<noteq> 0 \<Longrightarrow> (6 / 5 * pi * h / k = 0) = (h = (0::real))"
  by simp

lemma np_area:
  "k \<noteq> 0 \<Longrightarrow>
   np_mul (Fin pi) (np_square (np_sub (Fin r) (np_div (Fin force) (Fin k)))) = Fin (pi * (r - force / k) ^ 2)"
  by (simp add: np_sub_def)

text \<open>The force rate in numpy arithmetic, as \<open>rhs\<close> and \<open>velocity\<close> both write it.\<close>

lemma np_force_rate_zero_area:
  "\<not> is_finite (np_add x (np_div (np_mul c
       (np_mul (np_div (Fin a) (Fin 0)) y)) (Fin q)))"
  by (intro np_add_not_finite_right np_div_not_finite_num np_mul_not_finite_right
      np_mul_not_finite_left np_div_by_zero_not_finite)

lemma np_force_rate_finite:
  assumes "area \<noteq> 0" and "q \<noteq> 0"
  shows "np_add (np_div (Fin (- force)) (Fin q))
           (np_div (np_mul (Fin c)
              (np_mul (np_div (Fin (- a0)) (Fin area)) (np_sub (np_div (Fin a0) (Fin area)) (Fin rho))))
              (Fin q))
         = Fin (- force / q + c * (- a0 / area * (a0 / area - rho)) / q)"
  using assms by (simp add: np_sub_def)


lemma FullModel_velocity_np_zero_area:
  assumes "FullModel.k_p m \<noteq> 0" and "force = FullModel.k_p m * FullModel.R0 m"
  shows "\<not> is_finite (FullModel_velocity_np m force N)"
proof -
  have "pi * (FullModel.R0 m - force / FullModel.k_p m) ^ 2 = 0"
    unfolding area_zero_iff [OF assms(1)] by (rule assms(2))
  then show ?thesis
    unfolding FullModel_velocity_np_def Let_def np_area [OF assms(1)]
    by (simp only:) (intro np_div_not_finite_num np_force_rate_zero_area)
qed

lemma FullModel_velocity_np_finite:
  assumes "FullModel.k_p m \<noteq> 0" and "FullModel.tau m \<noteq> 0"
    and "force \<noteq> FullModel.k_p m * FullModel.R0 m"
  shows "is_finite (FullModel_velocity_np m force N)"
proof -
  have "pi * (FullModel.R0 m - force / FullModel.k_p m) ^ 2 \<noteq> 0"
    unfolding area_zero_iff [OF assms(1)] by (rule assms(3))
  then show ?thesis
    unfolding FullModel_velocity_np_def Let_def np_area [OF assms(1)]
    using assms(1,2) by (simp add: np_sub_def)
qed

lemma FullModel_rhs_np_first:
  "FullModel_rhs m t (NdArray [force, N]) = Inr ys \<Longrightarrow>
   FullModel_velocity_np m force N = np_div (ys ! 0) (Fin (FullModel.k_p m))"
  by (auto simp: FullModel_rhs_def FullModel_velocity_np_def Let_def split: sum.splits)

lemma FullModel_velocity_arrays:
  "length fs = length ns \<Longrightarrow>
   FullModel_velocity m t (ArgArray fs) (ArgArray ns) = Inr (ResArray (map2 (FullModel_velocity_np m) fs ns))"
  by (simp add: FullModel_velocity_def broadcast2_def)

lemma DensityModel_velocity_np_zero_area:
  assumes "k_p d \<noteq> 0" and "force = k_p d * R0 d"
  shows "\<not> is_finite (DensityModel_velocity_np d force)"
proof -
  have "pi * (R0 d - force / k_p d) ^ 2 = 0"
    unfolding area_zero_iff [OF assms(1)] by (rule assms(2))
  then show ?thesis
    unfolding DensityModel_velocity_np_def Let_def np_area [OF assms(1)]
    by (simp only:) (intro np_div_not_finite_num np_force_rate_zero_area)
qed

lemma DensityModel_velocity_np_finite:
  assumes "k_p d \<noteq> 0" and "tau d \<noteq> 0" and "force \<noteq> k_p d * R0 d"
  shows "is_finite (DensityModel_velocity_np d force)"
proof -
  have "pi * (R0 d - force / k_p d) ^ 2 \<noteq> 0"
    unfolding area_zero_iff [OF assms(1)] by (rule assms(3))
  then show ?thesis
    unfolding DensityModel_velocity_np_def Let_def np_area [OF assms(1)]
    using assms(1,2) by (simp add: np_sub_def)
qed

lemma DensityModel_rhs_np_first:
  "DensityModel_rhs d t (NdArray [force]) = Inr ys \<Longrightarrow>
   DensityModel_velocity_np d force = np_div (ys ! 0) (Fin (k_p d))"
  by (auto simp: DensityModel_rhs_def DensityModel_velocity_np_def Let_def)

lemma is_finite_np_div_Fin: "k \<noteq> 0 \<Longrightarrow> is_finite (np_div x (Fin k)) = is_finite x"
  by (cases x) simp_all


lemma FullModel_init_facts:
  assumes "FullModel_init py_float py_int parameter_file pillar_stiffness = Inr m"
  shows "FullModel.k_p m \<noteq> 0" and "(FullModel.tau m = 0) = (FullModel.h_eta m = 0)"
proof -
  from FullModel_init_Inr [OF assms] have mk: "FullModel.k_p m \<noteq> 0" and
    mtau: "FullModel.tau m = 6 / 5 * pi * FullModel.h_eta m / FullModel.k_p m"
    by auto
  show "FullModel.k_p m \<noteq> 0" by (rule mk)
  show "(FullModel.tau m = 0) = (FullModel.h_eta m = 0)"
    unfolding mtau using mk by (rule tau_zero_iff)
qed

lemma DensityModel_init_facts:
  assumes "DensityModel_init py_float py_int parameter_file pillar_stiffness = Inr d"
  shows "k_p d \<noteq> 0" and "(tau d = 0) = (h_eta d = 0)"
proof -
  from DensityModel_init_Inr [OF assms] have dk: "k_p d \<noteq> 0" and
    dtau: "tau d = 6 / 5 * pi * h_eta d / k_p d"
    by auto
  show "k_p d \<noteq> 0" by (rule dk)
  show "(tau d = 0) = (h_eta d = 0)"
    unfolding dtau using dk by (rule tau_zero_iff)
qed

lemma FullModel_float_zero_area:
  assumes "FullModel.k_p m \<noteq> 0" and "force = FullModel.k_p m * FullModel.R0 m"
  shows "FullModel_rhs m t (PyList [force, N]) = Inl ZeroDivisionError"
    and "FullModel_velocity m u (ArgFloat force) (ArgFloat N) = Inl ZeroDivisionError"
proof -
  have z: "pi * (FullModel.R0 m - force / FullModel.k_p m) ^ 2 = 0"
    unfolding area_zero_iff [OF assms(1)] by (rule assms(2))
  show "FullModel_rhs m t (PyList [force, N]) = Inl ZeroDivisionError"
    using assms(1) z by (simp add: FullModel_rhs_def Let_def)
  show "FullModel_velocity m u (ArgFloat force) (ArgFloat N) = Inl ZeroDivisionError"
    using assms(1) z by (simp add: FullModel_velocity_def Let_def)
qed

lemma FullModel_float_returns:
  assumes "FullModel.k_p m \<noteq> 0" and "FullModel.tau m \<noteq> 0"
    and "force \<noteq> FullModel.k_p m * FullModel.R0 m"
  shows "\<exists>v. FullModel_velocity m u (ArgFloat force) (ArgFloat N) = Inr (ResFloat v)"
    and "k_off_fil m force = Inr k \<Longrightarrow>
         \<exists>force_prime N_prime.
            FullModel_rhs m t (PyList [force, N]) = Inr [Fin force_prime, N_prime] \<and>
            FullModel_velocity m u (ArgFloat force) (ArgFloat N) = Inr (ResFloat (force_prime / FullModel.k_p m))"
proof -
  have nz: "pi * (FullModel.R0 m - force / FullModel.k_p m) ^ 2 \<noteq> 0"
    unfolding area_zero_iff [OF assms(1)] by (rule assms(3))
  show "\<exists>v. FullModel_velocity m u (ArgFloat force) (ArgFloat N) = Inr (ResFloat v)"
    using assms(1,2) nz by (simp add: FullModel_velocity_def Let_def)
  show "\<exists>force_prime N_prime.
            FullModel_rhs m t (PyList [force, N]) = Inr [Fin force_prime, N_prime] \<and>
            FullModel_velocity m u (ArgFloat force) (ArgFloat N) = Inr (ResFloat (force_prime / FullModel.k_p m))"
    if "k_off_fil m force = Inr k"
    using that assms(1,2) nz by (simp add: FullModel_rhs_def FullModel_velocity_def Let_def)
qed

lemma DensityModel_float_zero_area:
  assumes "k_p d \<noteq> 0" and "force = k_p d * R0 d"
  shows "DensityModel_rhs d t (PyList [force]) = Inl ZeroDivisionError"
    and "DensityModel_velocity d u (ArgFloat force) = Inl ZeroDivisionError"
proof -
  have z: "pi * (R0 d - force / k_p d) ^ 2 = 0"
    unfolding area_zero_iff [OF assms(1)] by (rule assms(2))
  show "DensityModel_rhs d t (PyList [force]) = Inl ZeroDivisionError"
    using assms(1) z by (simp add: DensityModel_rhs_def Let_def)
  show "DensityModel_velocity d u (ArgFloat force) = Inl ZeroDivisionError"
    using assms(1) z by (simp add: DensityModel_velocity_def Let_def)
qed

lemma DensityModel_float_returns:
  assumes "k_p d \<noteq> 0" and "tau d \<noteq> 0" and "force \<noteq> k_p d * R0 d"
  shows "\<exists>force_prime.
            DensityModel_rhs d t (PyList [force]) = Inr [Fin force_prime] \<and>
            DensityModel_velocity d u (ArgFloat force) = Inr (ResFloat (force_prime / k_p d))"
proof -
  have nz: "pi * (R0 d - force / k_p d) ^ 2 \<noteq> 0"
    unfolding area_zero_iff [OF assms(1)] by (rule assms(3))
  show ?thesis
    using assms(1,2) nz by (simp add: DensityModel_rhs_def DensityModel_velocity_def Let_def)
qed

lemma FullModel_rhs_NdArray_returns:
  assumes "k_off_fil m force = Inr k"
  shows "\<exists>force_prime N_prime. FullModel_rhs m t (NdArray [force, N]) = Inr [force_prime, N_prime]"
  using assms by (simp add: FullModel_rhs_def Let_def)

lemma DensityModel_rhs_NdArray_returns:
  "\<exists>force_prime. DensityModel_rhs d t (NdArray [force]) = Inr [force_prime]"
  by (simp add: DensityModel_rhs_def Let_def)

text \<open>
  Claim C8, as stated: \<open>rhs\<close> and \<open>velocity\<close> return a value for every state with
  \<open>force \<noteq> k_p R0\<close>, and at \<open>force = k_p R0\<close> the call fails with a division by zero.
  The division by \<open>tau\<close> is not guarded either: for the density model built with
  \<open>h*eta_am^eff = 0\<close>, \<open>tau\<close> is zero and both functions raise \<open>ZeroDivisionError\<close> at the
  Python float 0, where \<open>k_p R0 = 350\<close>; and the \<open>rhs\<close> of a full model without heads
  raises in \<open>k_off_fil\<close>. On numpy values the zero area raises nothing: at the array
  \<open>[350]\<close> the density model returns \<open>-inf\<close>.
\<close>

theorem rhs_raises_away_from_zero_area_counterexample:
  "DensityModel_init example_float example_int (example_density_file ''0'') 35 = Inr (example_density_model 0) \<and>
   k_p (example_density_model 0) * R0 (example_density_model 0) = 350 \<and>
   DensityModel_rhs (example_density_model 0) (0::real) (PyList [0]) = Inl ZeroDivisionError \<and>
   DensityModel_velocity (example_density_model 0) (0::real) (ArgFloat 0) = Inl ZeroDivisionError \<and>
   FullModel_init example_float example_int (example_full_file ''1'' ''1'' ''0'') 35 = Inr headless_model \<and>
   FullModel.k_p headless_model * FullModel.R0 headless_model = 350 \<and>
   FullModel_rhs headless_model (0::real) (PyList [0, 1]) = Inl ZeroDivisionError \<and>
   k_p (example_density_model 1) * R0 (example_density_model 1) = 350 \<and>
   DensityModel_rhs (example_density_model 1) (0::real) (NdArray [350]) = Inr [NInf] \<and>
   DensityModel_velocity (example_density_model 1) (0::real) (ArgArray [350]) = Inr (ResArray [NInf])"
  by (simp add: example_full_file_init(4) example_density_file_init(2) example_density_model_def
      DensityModel_rhs_def DensityModel_velocity_def DensityModel_velocity_np_def
      headless_model_def example_full_model_def
      FullModel_rhs_def k_off_fil_def calc_prob_dist_def py_range_def Let_def np_sub_def inf_of_sign_def)

text \<open>
  Claim C8, amended: \<open>rhs\<close> and \<open>velocity\<close> of both model variants divide by the current
  ring area \<open>\<pi> (R0 - force / k_p)\<^sup>2\<close> with no guard. For a constructed model:
  \<^item> on Python floats, a state with \<open>force = k_p R0\<close> makes the call raise
    \<open>ZeroDivisionError\<close>; with \<open>force \<noteq> k_p R0\<close> and \<open>h_eta \<noteq> 0\<close>, \<open>velocity\<close> returns a
    value, and so does \<open>rhs\<close> (of the full model when \<open>Nh\<close> is an int \<open>\<ge> 1\<close>);
  \<^item> on numpy values nothing is raised by a division: \<open>velocity\<close> returns an array
    (for force and \<open>N\<close> arrays of equal length) and \<open>rhs\<close> a list (of the full model when
    \<open>Nh\<close> is an int \<open>\<ge> 1\<close>), in which the force rate or velocity at \<open>force = k_p R0\<close> is
    \<open>inf\<close>, \<open>-inf\<close> or \<open>nan\<close>, and at \<open>force \<noteq> k_p R0\<close> with \<open>h_eta \<noteq> 0\<close> is a number.
\<close>

theorem rhs_velocity_area_division:
  "(FullModel_init py_float py_int parameter_file pillar_stiffness = Inr m \<longrightarrow>
      (force = FullModel.k_p m * FullModel.R0 m \<longrightarrow>
         FullModel_rhs m t (PyList [force, N]) = Inl ZeroDivisionError \<and>
         FullModel_velocity m u (ArgFloat force) (ArgFloat N) = Inl ZeroDivisionError) \<and>
      (force \<noteq> FullModel.k_p m * FullModel.R0 m \<and> FullModel.h_eta m \<noteq> 0 \<longrightarrow>
         (\<exists>v. FullModel_velocity m u (ArgFloat force) (ArgFloat N) = Inr (ResFloat v))) \<and>
      (force \<noteq> FullModel.k_p m * FullModel.R0 m \<and> FullModel.h_eta m \<noteq> 0 \<and>
       Nh m = PyInt nh \<and> 1 \<le> nh \<longrightarrow>
         (\<exists>force_prime N_prime. FullModel_rhs m t (PyList [force, N]) = Inr [Fin force_prime, N_prime])) \<and>
      (Nh m = PyInt nh \<and> 1 \<le> nh \<longrightarrow>
         (\<exists>force_prime N_prime.
            FullModel_rhs m t (NdArray [force, N]) = Inr [force_prime, N_prime] \<and>
            (force = FullModel.k_p m * FullModel.R0 m \<longrightarrow> \<not> is_finite force_prime) \<and>
            (force \<noteq> FullModel.k_p m * FullModel.R0 m \<and> FullModel.h_eta m \<noteq> 0 \<longrightarrow>
               is_finite force_prime))) \<and>
      (length fs = length ns \<longrightarrow>
         (\<exists>vs. FullModel_velocity m u (ArgArray fs) (ArgArray ns) = Inr (ResArray vs) \<and>
               length vs = length fs \<and>
               (\<forall>i < length fs.
                  (fs ! i = FullModel.k_p m * FullModel.R0 m \<longrightarrow> \<not> is_finite (vs ! i)) \<and>
                  (fs ! i \<noteq> FullModel.k_p m * FullModel.R0 m \<and> FullModel.h_eta m \<noteq> 0 \<longrightarrow>
                     is_finite (vs ! i)))))) \<and>
   (DensityModel_init py_float py_int parameter_file' pillar_stiffness' = Inr d \<longrightarrow>
      (force = k_p d * R0 d \<longrightarrow>
         DensityModel_rhs d t (PyList [force]) = Inl ZeroDivisionError \<and>
         DensityModel_velocity d u (ArgFloat force) = Inl ZeroDivisionError) \<and>
      (force \<noteq> k_p d * R0 d \<and> h_eta d \<noteq> 0 \<longrightarrow>
         (\<exists>force_prime. DensityModel_rhs d t (PyList [force]) = Inr [Fin force_prime]) \<and>
         (\<exists>v. DensityModel_velocity d u (ArgFloat force) = Inr (ResFloat v))) \<and>
      (\<exists>force_prime.
         DensityModel_rhs d t (NdArray [force]) = Inr [force_prime] \<and>
         (force = k_p d * R0 d \<longrightarrow> \<not> is_finite force_prime) \<and>
         (force \<noteq> k_p d * R0 d \<and> h_eta d \<noteq> 0 \<longrightarrow> is_finite force_prime)) \<and>
      (\<exists>vs. DensityModel_velocity d u (ArgArray fs) = Inr (ResArray vs) \<and>
            length vs = length fs \<and>
            (\<forall>i < length fs.
               (fs ! i = k_p d * R0 d \<longrightarrow> \<not> is_finite (vs ! i)) \<and>
               (fs ! i \<noteq> k_p d * R0 d \<and> h_eta d \<noteq> 0 \<longrightarrow> is_finite (vs ! i)))))"
proof -
  have F: "(force = FullModel.k_p m * FullModel.R0 m \<longrightarrow>
         FullModel_rhs m t (PyList [force, N]) = Inl ZeroDivisionError \<and>
         FullModel_velocity m u (ArgFloat force) (ArgFloat N) = Inl ZeroDivisionError) \<and>
      (force \<noteq> FullModel.k_p m * FullModel.R0 m \<and> FullModel.h_eta m \<noteq> 0 \<longrightarrow>
         (\<exists>v. FullModel_velocity m u (ArgFloat force) (ArgFloat N) = Inr (ResFloat v))) \<and>
      (force \<noteq> FullModel.k_p m * FullModel.R0 m \<and> FullModel.h_eta m \<noteq> 0 \<and>
       Nh m = PyInt nh \<and> 1 \<le> nh \<longrightarrow>
         (\<exists>force_prime N_prime. FullModel_rhs m t (PyList [force, N]) = Inr [Fin force_prime, N_prime])) \<and>
      (Nh m = PyInt nh \<and> 1 \<le> nh \<longrightarrow>
         (\<exists>force_prime N_prime.
            FullModel_rhs m t (NdArray [force, N]) = Inr [force_prime, N_prime] \<and>
            (force = FullModel.k_p m * FullModel.R0 m \<longrightarrow> \<not> is_finite force_prime) \<and>
            (force \<noteq> FullModel.k_p m * FullModel.R0 m \<and> FullModel.h_eta m \<noteq> 0 \<longrightarrow>
               is_finite force_prime))) \<and>
      (length fs = length ns \<longrightarrow>
         (\<exists>vs. FullModel_velocity m u (ArgArray fs) (ArgArray ns) = Inr (ResArray vs) \<and>
               length vs = length fs \<and>
               (\<forall>i < length fs.
                  (fs ! i = FullModel.k_p m * FullModel.R0 m \<longrightarrow> \<not> is_finite (vs ! i)) \<and>
                  (fs ! i \<noteq> FullModel.k_p m * FullModel.R0 m \<and> FullModel.h_eta m \<noteq> 0 \<longrightarrow>
                     is_finite (vs ! i)))))"
    if init: "FullModel_init py_float py_int parameter_file pillar_stiffness = Inr m"
  proof -
    note mk = FullModel_init_facts(1) [OF init] and mt = FullModel_init_facts(2) [OF init]
    have 1: "FullModel_rhs m t (PyList [force, N]) = Inl ZeroDivisionError \<and>
         FullModel_velocity m u (ArgFloat force) (ArgFloat N) = Inl ZeroDivisionError"
      if "force = FullModel.k_p m * FullModel.R0 m"
      using FullModel_float_zero_area(1) [OF mk that, where t = t and N = N]
          FullModel_float_zero_area(2) [OF mk that, where u = u and N = N] by simp
    have 2: "\<exists>v. FullModel_velocity m u (ArgFloat force) (ArgFloat N) = Inr (ResFloat v)"
      if "force \<noteq> FullModel.k_p m * FullModel.R0 m \<and> FullModel.h_eta m \<noteq> 0"
      using FullModel_float_returns(1) [OF mk, where force = force and u = u and N = N] that mt by simp
    have 3: "\<exists>force_prime N_prime. FullModel_rhs m t (PyList [force, N]) = Inr [Fin force_prime, N_prime]"
      if ok: "force \<noteq> FullModel.k_p m * FullModel.R0 m \<and> FullModel.h_eta m \<noteq> 0 \<and>
              Nh m = PyInt nh \<and> 1 \<le> nh"
    proof -
      from ok obtain k where k: "k_off_fil m force = Inr k" using k_off_fil_returns by blast
      have "FullModel.tau m \<noteq> 0" using ok mt by blast
      from FullModel_float_returns(2) [OF mk this _ k, where t = t and u = u and N = N] ok show ?thesis by blast
    qed
    have 4: "\<exists>force_prime N_prime.
            FullModel_rhs m t (NdArray [force, N]) = Inr [force_prime, N_prime] \<and>
            (force = FullModel.k_p m * FullModel.R0 m \<longrightarrow> \<not> is_finite force_prime) \<and>
            (force \<noteq> FullModel.k_p m * FullModel.R0 m \<and> FullModel.h_eta m \<noteq> 0 \<longrightarrow>
               is_finite force_prime)"
      if ok: "Nh m = PyInt nh \<and> 1 \<le> nh"
    proof -
      from ok obtain k where k: "k_off_fil m force = Inr k" using k_off_fil_returns by blast
      from FullModel_rhs_NdArray_returns [OF k, where t = t and N = N] obtain fp np where
        r: "FullModel_rhs m t (NdArray [force, N]) = Inr [fp, np]" by blast
      have v: "FullModel_velocity_np m force N = np_div fp (Fin (FullModel.k_p m))"
        using FullModel_rhs_np_first [OF r] by simp
      have a: "\<not> is_finite fp" if "force = FullModel.k_p m * FullModel.R0 m"
        using FullModel_velocity_np_zero_area [OF mk that, of N]
        unfolding v is_finite_np_div_Fin [OF mk] .
      have b: "is_finite fp" if "force \<noteq> FullModel.k_p m * FullModel.R0 m \<and> FullModel.h_eta m \<noteq> 0"
      proof -
        have "FullModel.tau m \<noteq> 0" using that mt by blast
        from FullModel_velocity_np_finite [OF mk this, of force N] that show ?thesis
          unfolding v is_finite_np_div_Fin [OF mk] by blast
      qed
      from r a b show ?thesis by blast
    qed
    have 5: "\<exists>vs. FullModel_velocity m u (ArgArray fs) (ArgArray ns) = Inr (ResArray vs) \<and>
               length vs = length fs \<and>
               (\<forall>i < length fs.
                  (fs ! i = FullModel.k_p m * FullModel.R0 m \<longrightarrow> \<not> is_finite (vs ! i)) \<and>
                  (fs ! i \<noteq> FullModel.k_p m * FullModel.R0 m \<and> FullModel.h_eta m \<noteq> 0 \<longrightarrow>
                     is_finite (vs ! i)))"
      if len: "length fs = length ns"
    proof (intro exI conjI allI impI)
      show "FullModel_velocity m u (ArgArray fs) (ArgArray ns) =
              Inr (ResArray (map2 (FullModel_velocity_np m) fs ns))"
        using len by (rule FullModel_velocity_arrays)
      show "length (map2 (FullModel_velocity_np m) fs ns) = length fs" using len by simp
    next
      fix i assume i: "i < length fs" and at: "fs ! i = FullModel.k_p m * FullModel.R0 m"
      have "map2 (FullModel_velocity_np m) fs ns ! i = FullModel_velocity_np m (fs ! i) (ns ! i)"
        using i len by simp
      then show "\<not> is_finite (map2 (FullModel_velocity_np m) fs ns ! i)"
        using FullModel_velocity_np_zero_area [OF mk at] by simp
    next
      fix i assume i: "i < length fs"
        and ok: "fs ! i \<noteq> FullModel.k_p m * FullModel.R0 m \<and> FullModel.h_eta m \<noteq> 0"
      have "map2 (FullModel_velocity_np m) fs ns ! i = FullModel_velocity_np m (fs ! i) (ns ! i)"
        using i len by simp
      moreover have "FullModel.tau m \<noteq> 0" using ok mt by blast
      ultimately show "is_finite (map2 (FullModel_velocity_np m) fs ns ! i)"
        using FullModel_velocity_np_finite [OF mk, of "fs ! i" "ns ! i"] ok by simp
    qed
    from 1 2 3 4 5 show ?thesis by blast
  qed
  have D: "(force = k_p d * R0 d \<longrightarrow>
         DensityModel_rhs d t (PyList [force]) = Inl ZeroDivisionError \<and>
         DensityModel_velocity d u (ArgFloat force) = Inl ZeroDivisionError) \<and>
      (force \<noteq> k_p d * R0 d \<and> h_eta d \<noteq> 0 \<longrightarrow>
         (\<exists>force_prime. DensityModel_rhs d t (PyList [force]) = Inr [Fin force_prime]) \<and>
         (\<exists>v. DensityModel_velocity d u (ArgFloat force) = Inr (ResFloat v))) \<and>
      (\<exists>force_prime.
         DensityModel_rhs d t (NdArray [force]) = Inr [force_prime] \<and>
         (force = k_p d * R0 d \<longrightarrow> \<not> is_finite force_prime) \<and>
         (force \<noteq> k_p d * R0 d \<and> h_eta d \<noteq> 0 \<longrightarrow> is_finite force_prime)) \<and>
      (\<exists>vs. DensityModel_velocity d u (ArgArray fs) = Inr (ResArray vs) \<and>
            length vs = length fs \<and>
            (\<forall>i < length fs.
               (fs ! i = k_p d * R0 d \<longrightarrow> \<not> is_finite (vs ! i)) \<and>
               (fs ! i \<noteq> k_p d * R0 d \<and> h_eta d \<noteq> 0 \<longrightarrow> is_finite (vs ! i))))"
    if init: "DensityModel_init py_float py_int parameter_file' pillar_stiffness' = Inr d"
  proof -
    note dk = DensityModel_init_facts(1) [OF init] and dt = DensityModel_init_facts(2) [OF init]
    have 1: "DensityModel_rhs d t (PyList [force]) = Inl ZeroDivisionError \<and>
         DensityModel_velocity d u (ArgFloat force) = Inl ZeroDivisionError"
      if "force = k_p d * R0 d"
      using DensityModel_float_zero_area(1) [OF dk that, where t = t]
          DensityModel_float_zero_area(2) [OF dk that, where u = u] by simp
    have 2: "(\<exists>force_prime. DensityModel_rhs d t (PyList [force]) = Inr [Fin force_prime]) \<and>
         (\<exists>v. DensityModel_velocity d u (ArgFloat force) = Inr (ResFloat v))"
      if ok: "force \<noteq> k_p d * R0 d \<and> h_eta d \<noteq> 0"
    proof -
      have "tau d \<noteq> 0" using ok dt by blast
      from DensityModel_float_returns [OF dk this, where force = force and t = t and u = u] ok show ?thesis by blast
    qed
    have 3: "\<exists>force_prime.
         DensityModel_rhs d t (NdArray [force]) = Inr [force_prime] \<and>
         (force = k_p d * R0 d \<longrightarrow> \<not> is_finite force_prime) \<and>
         (force \<noteq> k_p d * R0 d \<and> h_eta d \<noteq> 0 \<longrightarrow> is_finite force_prime)"
    proof -
      from DensityModel_rhs_NdArray_returns [where t = t and d = d and force = force] obtain fp where
        r: "DensityModel_rhs d t (NdArray [force]) = Inr [fp]" by blast
      have v: "DensityModel_velocity_np d force = np_div fp (Fin (k_p d))"
        using DensityModel_rhs_np_first [OF r] by simp
      have a: "\<not> is_finite fp" if "force = k_p d * R0 d"
        using DensityModel_velocity_np_zero_area [OF dk that]
        unfolding v is_finite_np_div_Fin [OF dk] .
      have b: "is_finite fp" if "force \<noteq> k_p d * R0 d \<and> h_eta d \<noteq> 0"
      proof -
        have "tau d \<noteq> 0" using that dt by blast
        from DensityModel_velocity_np_finite [OF dk this, of force] that show ?thesis
          unfolding v is_finite_np_div_Fin [OF dk] by blast
      qed
      from r a b show ?thesis by blast
    qed
    have 4: "\<exists>vs. DensityModel_velocity d u (ArgArray fs) = Inr (ResArray vs) \<and>
            length vs = length fs \<and>
            (\<forall>i < length fs.
               (fs ! i = k_p d * R0 d \<longrightarrow> \<not> is_finite (vs ! i)) \<and>
               (fs ! i \<noteq> k_p d * R0 d \<and> h_eta d \<noteq> 0 \<longrightarrow> is_finite (vs ! i)))"
    proof (intro exI conjI allI impI)
      show "DensityModel_velocity d u (ArgArray fs) = Inr (ResArray (map (DensityModel_velocity_np d) fs))"
        by (simp add: DensityModel_velocity_def)
      show "length (map (DensityModel_velocity_np d) fs) = length fs" by simp
    next
      fix i assume i: "i < length fs" and at: "fs ! i = k_p d * R0 d"
      show "\<not> is_finite (map (DensityModel_velocity_np d) fs ! i)"
        using DensityModel_velocity_np_zero_area [OF dk at] i by simp
    next
      fix i assume i: "i < length fs" and ok: "fs ! i \<noteq> k_p d * R0 d \<and> h_eta d \<noteq> 0"
      have "tau d \<noteq> 0" using ok dt by blast
      then show "is_finite (map (DensityModel_velocity_np d) fs ! i)"
        using DensityModel_velocity_np_finite [OF dk, of "fs ! i"] ok i by simp
    qed
    from 1 2 3 4 show ?thesis by blast
  qed
  from F D show ?thesis by blast
qed


theorem rhs_velocity_area_division_witness:
  "FullModel_rhs two_head_model (0::real) (PyList [350, 1]) = Inl ZeroDivisionError \<and>
   FullModel_velocity two_head_model (0::real) (ArgFloat 350) (ArgFloat 1) = Inl ZeroDivisionError \<and>
   (\<exists>v. FullModel_velocity two_head_model (0::real) (ArgFloat 0) (ArgFloat 1) = Inr (ResFloat v)) \<and>
   (\<exists>force_prime N_prime.
      FullModel_rhs two_head_model (0::real) (PyList [0, 1]) = Inr [Fin force_prime, N_prime]) \<and>
   (\<exists>force_prime N_prime.
      FullModel_rhs two_head_model (0::real) (NdArray [350, 1]) = Inr [force_prime, N_prime] \<and>
      \<not> is_finite force_prime) \<and>
   (\<exists>vs. FullModel_velocity two_head_model (0::real) (ArgArray [0, 350]) (ArgArray [1, 1]) = Inr (ResArray vs) \<and>
      is_finite (vs ! 0) \<and> \<not> is_finite (vs ! 1)) \<and>
   DensityModel_rhs (example_density_model 1) (0::real) (PyList [350]) = Inl ZeroDivisionError \<and>
   DensityModel_velocity (example_density_model 1) (0::real) (ArgFloat 350) = Inl ZeroDivisionError \<and>
   (\<exists>force_prime. DensityModel_rhs (example_density_model 1) (0::real) (PyList [0]) = Inr [Fin force_prime]) \<and>
   (\<exists>force_prime.
      DensityModel_rhs (example_density_model 1) (0::real) (NdArray [350]) = Inr [force_prime] \<and>
      \<not> is_finite force_prime) \<and>
   (\<exists>vs. DensityModel_velocity (example_density_model 1) (0::real) (ArgArray [0, 350]) = Inr (ResArray vs) \<and>
      is_finite (vs ! 0) \<and> \<not> is_finite (vs ! 1))"
proof -
  have k: "FullModel.k_p two_head_model * FullModel.R0 two_head_model = 350"
    "FullModel.h_eta two_head_model \<noteq> 0" "Nh two_head_model = PyInt 2"
    "k_p (example_density_model 1) * R0 (example_density_model 1) = 350"
    "h_eta (example_density_model 1) \<noteq> 0"
    by (simp_all add: two_head_model_def example_full_model_def example_density_model_def)
  note at = rhs_velocity_area_division [of example_float example_int "example_full_file ''1'' ''1'' ''2''" 35
      two_head_model 350 "0::real" 1 "0::real" 2 "[0, 350]" "[1, 1]"
      "example_density_file ''1''" 35 "example_density_model 1"]
  note off = rhs_velocity_area_division [of example_float example_int "example_full_file ''1'' ''1'' ''2''" 35
      two_head_model 0 "0::real" 1 "0::real" 2 "[0, 350]" "[1, 1]"
      "example_density_file ''1''" 35 "example_density_model 1"]
  from at off example_full_file_init(2) example_density_file_init(1) k
  show ?thesis by (simp add: All_less_Suc numeral_2_eq_2) blast
qed


text \<open>
  Claim C7, as stated: at every state with \<open>force \<noteq> k_p R0\<close>, \<open>velocity\<close> equals the first
  component of \<open>rhs\<close> divided by \<open>k_p\<close>. For the full model without heads, at force 0
  (where \<open>k_p R0 = 350\<close>), \<open>velocity\<close> returns \<open>5 / (6 \<pi>)\<close> while \<open>rhs\<close> raises
  \<open>ZeroDivisionError\<close> in \<open>k_off_fil\<close> and has no first component, on Python floats and
  on numpy values alike.
\<close>

theorem velocity_without_rhs_counterexample:
  "FullModel_init example_float example_int (example_full_file ''1'' ''1'' ''0'') 35 = Inr headless_model \<and>
   FullModel.k_p headless_model * FullModel.R0 headless_model = 350 \<and>
   FullModel_velocity headless_model (0::real) (ArgFloat 0) (ArgFloat 1) = Inr (ResFloat (5 / (6 * pi))) \<and>
   FullModel_rhs headless_model (0::real) (PyList [0, 1]) = Inl ZeroDivisionError \<and>
   FullModel_velocity headless_model (0::real) (ArgArray [0]) (ArgArray [1]) = Inr (ResArray [Fin (5 / (6 * pi))]) \<and>
   FullModel_rhs headless_model (0::real) (NdArray [0, 1]) = Inl ZeroDivisionError"
  by (simp add: example_full_file_init(4) headless_model_def example_full_model_def
      FullModel_rhs_def FullModel_velocity_def FullModel_velocity_np_def broadcast2_def
      k_off_fil_def calc_prob_dist_def py_range_def Let_def np_sub_def)

text \<open>
  Claim C7, amended: for either model variant, at every state where \<open>rhs\<close> returns,
  \<open>velocity\<close> returns the first component of \<open>rhs\<close> divided by \<open>k_p\<close>: as a float for a
  state of Python floats, and at the same index of its result for numpy arrays. For
  a constructed full model with an int \<open>Nh \<ge> 1\<close>, \<open>rhs\<close> returns at every numpy state,
  and at every state of Python floats with \<open>force \<noteq> k_p R0\<close> when \<open>h_eta \<noteq> 0\<close>; the
  \<open>rhs\<close> of the density model returns at every numpy state, and at every state of
  Python floats with \<open>force \<noteq> k_p R0\<close> when it is constructed with \<open>h_eta \<noteq> 0\<close>.
\<close>

theorem velocity_is_force_rate_over_k_p:
  "(FullModel_rhs m t (PyList [force, N]) = Inr ys \<longrightarrow>
      (\<exists>force_prime. ys ! 0 = Fin force_prime \<and>
         FullModel_velocity m u (ArgFloat force) (ArgFloat N) = Inr (ResFloat (force_prime / FullModel.k_p m)))) \<and>
   (length fs = length ns \<and> i < length fs \<and>
    FullModel_rhs m t (NdArray [fs ! i, ns ! i]) = Inr ys' \<longrightarrow>
      (\<exists>vs. FullModel_velocity m u (ArgArray fs) (ArgArray ns) = Inr (ResArray vs) \<and>
            length vs = length fs \<and> vs ! i = np_div (ys' ! 0) (Fin (FullModel.k_p m)))) \<and>
   (FullModel_init py_float py_int parameter_file pillar_stiffness = Inr m \<and>
    Nh m = PyInt nh \<and> 1 \<le> nh \<longrightarrow>
      (\<exists>rs. FullModel_rhs m t (NdArray [force, N]) = Inr rs) \<and>
      (force \<noteq> FullModel.k_p m * FullModel.R0 m \<and> FullModel.h_eta m \<noteq> 0 \<longrightarrow>
         (\<exists>rs. FullModel_rhs m t (PyList [force, N]) = Inr rs))) \<and>
   (DensityModel_rhs d t (PyList [force]) = Inr zs \<longrightarrow>
      (\<exists>force_prime. zs ! 0 = Fin force_prime \<and>
         DensityModel_velocity d u (ArgFloat force) = Inr (ResFloat (force_prime / k_p d)))) \<and>
   (i < length fs \<and> DensityModel_rhs d t (NdArray [fs ! i]) = Inr zs' \<longrightarrow>
      (\<exists>vs. DensityModel_velocity d u (ArgArray fs) = Inr (ResArray vs) \<and>
            length vs = length fs \<and> vs ! i = np_div (zs' ! 0) (Fin (k_p d)))) \<and>
   (\<exists>rs. DensityModel_rhs d t (NdArray [force]) = Inr rs) \<and>
   (DensityModel_init py_float py_int parameter_file' pillar_stiffness' = Inr d \<and>
    force \<noteq> k_p d * R0 d \<and> h_eta d \<noteq> 0 \<longrightarrow>
      (\<exists>rs. DensityModel_rhs d t (PyList [force]) = Inr rs))"
proof -
  have 1: "\<exists>force_prime. ys ! 0 = Fin force_prime \<and>
         FullModel_velocity m u (ArgFloat force) (ArgFloat N) = Inr (ResFloat (force_prime / FullModel.k_p m))"
    if "FullModel_rhs m t (PyList [force, N]) = Inr ys"
    using that
    by (auto simp: FullModel_rhs_def FullModel_velocity_def Let_def split: if_splits sum.splits)
  have 2: "\<exists>vs. FullModel_velocity m u (ArgArray fs) (ArgArray ns) = Inr (ResArray vs) \<and>
            length vs = length fs \<and> vs ! i = np_div (ys' ! 0) (Fin (FullModel.k_p m))"
    if h: "length fs = length ns \<and> i < length fs \<and>
           FullModel_rhs m t (NdArray [fs ! i, ns ! i]) = Inr ys'"
  proof (intro exI conjI)
    show "FullModel_velocity m u (ArgArray fs) (ArgArray ns) =
            Inr (ResArray (map2 (FullModel_velocity_np m) fs ns))"
      using h by (intro FullModel_velocity_arrays) simp
    show "length (map2 (FullModel_velocity_np m) fs ns) = length fs" using h by simp
    have "map2 (FullModel_velocity_np m) fs ns ! i = FullModel_velocity_np m (fs ! i) (ns ! i)"
      using h by simp
    also have "\<dots> = np_div (ys' ! 0) (Fin (FullModel.k_p m))"
      using h by (intro FullModel_rhs_np_first [where t = t]) simp
    finally show "map2 (FullModel_velocity_np m) fs ns ! i = np_div (ys' ! 0) (Fin (FullModel.k_p m))" .
  qed
  have 3: "(\<exists>rs. FullModel_rhs m t (NdArray [force, N]) = Inr rs) \<and>
      (force \<noteq> FullModel.k_p m * FullModel.R0 m \<and> FullModel.h_eta m \<noteq> 0 \<longrightarrow>
         (\<exists>rs. FullModel_rhs m t (PyList [force, N]) = Inr rs))"
    if h: "FullModel_init py_float py_int parameter_file pillar_stiffness = Inr m \<and>
           Nh m = PyInt nh \<and> 1 \<le> nh"
  proof -
    from h have init: "FullModel_init py_float py_int parameter_file pillar_stiffness = Inr m" by blast
    note mk = FullModel_init_facts(1) [OF init] and mt = FullModel_init_facts(2) [OF init]
    from h obtain k where k: "k_off_fil m force = Inr k" using k_off_fil_returns by blast
    have a: "\<exists>rs. FullModel_rhs m t (NdArray [force, N]) = Inr rs"
      using FullModel_rhs_NdArray_returns [OF k, where t = t and N = N] by blast
    have b: "\<exists>rs. FullModel_rhs m t (PyList [force, N]) = Inr rs"
      if ok: "force \<noteq> FullModel.k_p m * FullModel.R0 m \<and> FullModel.h_eta m \<noteq> 0"
    proof -
      have "FullModel.tau m \<noteq> 0" using ok mt by blast
      from FullModel_float_returns(2) [OF mk this _ k, where t = t and u = u and N = N] ok
      show ?thesis by blast
    qed
    from a b show ?thesis by blast
  qed
  have 4: "\<exists>force_prime. zs ! 0 = Fin force_prime \<and>
         DensityModel_velocity d u (ArgFloat force) = Inr (ResFloat (force_prime / k_p d))"
    if "DensityModel_rhs d t (PyList [force]) = Inr zs"
    using that
    by (auto simp: DensityModel_rhs_def DensityModel_velocity_def Let_def split: if_splits)
  have 5: "\<exists>vs. DensityModel_velocity d u (ArgArray fs) = Inr (ResArray vs) \<and>
            length vs = length fs \<and> vs ! i = np_div (zs' ! 0) (Fin (k_p d))"
    if h: "i < length fs \<and> DensityModel_rhs d t (NdArray [fs ! i]) = Inr zs'"
  proof (intro exI conjI)
    show "DensityModel_velocity d u (ArgArray fs) = Inr (ResArray (map (DensityModel_velocity_np d) fs))"
      by (simp add: DensityModel_velocity_def)
    show "length (map (DensityModel_velocity_np d) fs) = length fs" by simp
    have "map (DensityModel_velocity_np d) fs ! i = DensityModel_velocity_np d (fs ! i)"
      using h by simp
    also have "\<dots> = np_div (zs' ! 0) (Fin (k_p d))"
      using h by (intro DensityModel_rhs_np_first [where t = t]) simp
    finally show "map (DensityModel_velocity_np d) fs ! i = np_div (zs' ! 0) (Fin (k_p d))" .
  qed
  have 6: "\<exists>rs. DensityModel_rhs d t (NdArray [force]) = Inr rs"
    using DensityModel_rhs_NdArray_returns [where t = t and d = d and force = force] by blast
  have 7: "\<exists>rs. DensityModel_rhs d t (PyList [force]) = Inr rs"
    if h: "DensityModel_init py_float py_int parameter_file' pillar_stiffness' = Inr d \<and>
           force \<noteq> k_p d * R0 d \<and> h_eta d \<noteq> 0"
  proof -
    from h have init: "DensityModel_init py_float py_int parameter_file' pillar_stiffness' = Inr d" by blast
    note dk = DensityModel_init_facts(1) [OF init] and dt = DensityModel_init_facts(2) [OF init]
    have "tau d \<noteq> 0" using h dt by blast
    from DensityModel_float_returns [OF dk this, where force = force and t = t and u = u] h
    show ?thesis by blast
  qed
  from 1 2 3 4 5 6 7 show ?thesis by blast
qed

theorem velocity_is_force_rate_over_k_p_witness:
  "(\<exists>N_prime. FullModel_rhs two_head_model (0::real) (PyList [0, 1]) = Inr [Fin (175 / (6 * pi)), N_prime]) \<and>
   FullModel_velocity two_head_model (0::real) (ArgFloat 0) (ArgFloat 1) = Inr (ResFloat (5 / (6 * pi))) \<and>
   (\<exists>N_prime. FullModel_rhs two_head_model (0::real) (NdArray [0, 1]) = Inr [Fin (175 / (6 * pi)), N_prime]) \<and>
   FullModel_velocity two_head_model (0::real) (ArgArray [7, 0]) (ArgArray [3, 1]) =
     Inr (ResArray [FullModel_velocity_np two_head_model 7 3, Fin (5 / (6 * pi))]) \<and>
   DensityModel_rhs (example_density_model 1) (0::real) (PyList [0]) = Inr [Fin (175 / (6 * pi))] \<and>
   DensityModel_velocity (example_density_model 1) (0::real) (ArgFloat 0) = Inr (ResFloat (5 / (6 * pi))) \<and>
   DensityModel_rhs (example_density_model 1) (0::real) (NdArray [0]) = Inr [Fin (175 / (6 * pi))] \<and>
   DensityModel_velocity (example_density_model 1) (0::real) (ArgArray [7, 0]) =
     Inr (ResArray [DensityModel_velocity_np (example_density_model 1) 7, Fin (5 / (6 * pi))])"
proof -
  obtain k where k: "k_off_fil two_head_model 0 = Inr k"
    using k_off_fil_returns [of two_head_model 2 0]
    by (auto simp: two_head_model_def example_full_model_def)
  have py: "FullModel_rhs two_head_model (0::real) (PyList [0, 1]) =
              Inr [Fin (175 / (6 * pi)), np_sub (Fin (1 * (to_real (PyInt 10) - 1))) (np_mul k (Fin 1))]"
    using k by (simp add: FullModel_rhs_def Let_def two_head_model_def example_full_model_def)
  have np: "FullModel_rhs two_head_model (0::real) (NdArray [0, 1]) =
              Inr [Fin (175 / (6 * pi)),
                   np_sub (np_mul (Fin 1) (np_sub (Fin (to_real (PyInt 10))) (Fin 1))) (np_mul k (Fin 1))]"
    using k by (simp add: FullModel_rhs_def Let_def two_head_model_def example_full_model_def np_sub_def)
  have dpy: "DensityModel_rhs (example_density_model 1) (0::real) (PyList [0]) = Inr [Fin (175 / (6 * pi))]"
    by (simp add: DensityModel_rhs_def Let_def example_density_model_def)
  have dnp: "DensityModel_rhs (example_density_model 1) (0::real) (NdArray [0]) = Inr [Fin (175 / (6 * pi))]"
    by (simp add: DensityModel_rhs_def Let_def example_density_model_def np_sub_def)
  have kp: "FullModel.k_p two_head_model = 35" "k_p (example_density_model 1) = 35"
    by (simp_all add: two_head_model_def example_full_model_def example_density_model_def)
  note inst = velocity_is_force_rate_over_k_p [of two_head_model "0::real" 0 1 _ "0::real"
      "[7, 0]" "[3, 1]" 1 _ example_float example_int "example_full_file ''1'' ''1'' ''2''" 35 2
      "example_density_model 1" _ _ "example_density_file ''1''" 35]
  from inst [of "[Fin (175 / (6 * pi)), np_sub (Fin (1 * (to_real (PyInt 10) - 1))) (np_mul k (Fin 1))]"
      "[Fin (175 / (6 * pi)),
        np_sub (np_mul (Fin 1) (np_sub (Fin (to_real (PyInt 10))) (Fin 1))) (np_mul k (Fin 1))]"
      "[Fin (175 / (6 * pi))]" "[Fin (175 / (6 * pi))]"]
    py np dpy dnp kp
  show ?thesis
    by (auto simp: FullModel_velocity_def DensityModel_velocity_def broadcast2_def)
qed

end
